theory Spec2Isabelle
  imports Complex_Main
begin

section \<open>JavaScript values used by the authentication core\<close>

text \<open>
  A JavaScript number is either \<open>NaN\<close> or a finite value. Finite doubles are embedded
  into the reals: every comparison the code makes is exact there. Where the code adds
  two doubles, the rounded addition is a parameter of the model. The two infinities are
  outside this model.
\<close>

datatype jsnum = NaN | Num real

text \<open>The relational operators greater-than, greater-or-equal and less-or-equal: any comparison
  with \<open>NaN\<close> is false.\<close>

fun js_gt :: "jsnum \<Rightarrow> jsnum \<Rightarrow> bool" where
  "js_gt (Num a) (Num b) = (b < a)"
| "js_gt _ _ = False"

fun js_ge :: "jsnum \<Rightarrow> jsnum \<Rightarrow> bool" where
  "js_ge (Num a) (Num b) = (b \<le> a)"
| "js_ge _ _ = False"

fun js_le :: "jsnum \<Rightarrow> jsnum \<Rightarrow> bool" where
  "js_le (Num a) (Num b) = (a \<le> b)"
| "js_le _ _ = False"

text \<open>Truthiness of a number (\<open>0\<close> and \<open>NaN\<close> are falsy) and of a string (\<open>""\<close> is falsy).\<close>

fun num_truthy :: "jsnum \<Rightarrow> bool" where
  "num_truthy NaN = False"
| "num_truthy (Num r) = (r \<noteq> 0)"

definition str_truthy :: "string \<Rightarrow> bool" where
  "str_truthy s = (s \<noteq> [])"

text \<open>A property that may be missing (\<open>undefined\<close>), \<open>null\<close>, or hold a value.\<close>

datatype 'a js = Undefined | Null | Val 'a

text \<open>\<open>s.includes(sub)\<close> on strings.\<close>

fun starts_with :: "string \<Rightarrow> string \<Rightarrow> bool" where
  "starts_with s [] = True"
| "starts_with [] (c # cs) = False"
| "starts_with (a # as) (c # cs) = (a = c \<and> starts_with as cs)"

fun str_includes :: "string \<Rightarrow> string \<Rightarrow> bool" where
  "str_includes [] sub = (sub = [])"
| "str_includes (a # as) sub = (starts_with (a # as) sub \<or> str_includes as sub)"

text \<open>
  An error object: \<open>name\<close>, \<open>message\<close> and \<open>code\<close>, each possibly absent.
  \<open>new Error(m)\<close> has the name \<open>Error\<close>, the message \<open>m\<close> and no code.
\<close>

datatype code = CodeStr string | CodeNum int

record js_error =
  err_name :: "string option"
  err_message :: "string option"
  err_code :: "code option"

definition new_Error :: "string \<Rightarrow> js_error" where
  "new_Error m = \<lparr>err_name = Some ''Error'', err_message = Some m, err_code = None\<rparr>"

text \<open>\<open>error.message?.includes(sub)\<close>: \<open>undefined\<close> (falsy) when there is no message.\<close>

definition message_includes :: "js_error \<Rightarrow> string \<Rightarrow> bool" where
  "message_includes e sub = (case err_message e of None \<Rightarrow> False | Some m \<Rightarrow> str_includes m sub)"

text \<open>\<open>error.name === 'AbortError' || error.message?.includes('AbortError')\<close>\<close>

definition isAbortError :: "js_error \<Rightarrow> bool" where
  "isAbortError e = (err_name e = Some ''AbortError'' \<or> message_includes e ''AbortError'')"

section \<open>Identity state\<close>

record user =
  user_id :: string
  email :: "string js"

record profile =
  profile_id :: string
  nickname :: "string js"
  user_type :: "string js"
  wallet_address :: "string js"
  token_balance :: "jsnum js"

record session =
  session_user :: "user option"
  expires_at :: "nat option"

text \<open>A realtime channel (topic \<^verbatim>\<open>profile:\<close> followed by the user id), and a pending timer.\<close>

record channel =
  chan_id :: nat
  chan_user :: string

datatype timer_task = BackgroundRetry user | InitFallback

record timer =
  timer_id :: nat
  delay_ms :: nat
  task :: timer_task

text \<open>
  The effects the authentication core has on its collaborators, in the order made: wallet
  prompts, writes to the hosted database, uses of the hosted-auth client, realtime
  channels and timers. Reads (queries, the balance lookup) are inputs of the operations.
\<close>

datatype effect =
    PhantomConnect
  | PhantomDisconnect
  | WindowOpen string
  | Alert
  | DbUpdateProfile string "(string \<times> string js) list"
  | AuthSignInWithPassword string string
  | AuthSignOut
  | ChannelSubscribe channel
  | RemoveChannel channel
  | SetTimeout timer
  | ClearTimeout nat

text \<open>
  The React state of \<open>AuthProvider\<close> (the \<open>useState\<close> cells), its four refs, the local
  \<open>fallbackTimeoutId\<close> that the mount effect keeps for its cleanup, and the part of the
  environment the provider acts on: the realtime channels that are subscribed, the timers
  that are pending, a counter for fresh handles, and the log of effects.
  \<open>liveTokenBalance\<close> starts as the number 0 and is only ever set to what
  \<open>fetchTokenBalance\<close> resolves to. A timer handle is a positive integer and a channel
  is an object, so a ref that holds one is truthy: \<open>if (ref.current)\<close> is the test
  \<open>ref \<noteq> None\<close>.
\<close>

record auth_state =
  user :: "user option"
  profile :: "profile option"
  isLoading :: bool
  isProfileLoading :: bool
  authError :: "js_error option"
  localWalletAddress :: "string option"
  isWalletConnecting :: bool
  liveTokenBalance :: jsnum
  mountedRef :: bool
  initCompleteRef :: bool
  backgroundRetryRef :: "nat option"
  profileSubscriptionRef :: "channel option"
  fallbackTimeoutId :: "nat option"
  channels :: "channel list"
  timers :: "timer list"
  next_id :: nat
  effects :: "effect list"

definition initial_state :: auth_state where
  "initial_state = \<lparr>
     user = None, profile = None, isLoading = True, isProfileLoading = False,
     authError = None, localWalletAddress = None, isWalletConnecting = False,
     liveTokenBalance = Num 0, mountedRef = True, initCompleteRef = False,
     backgroundRetryRef = None, profileSubscriptionRef = None,
     fallbackTimeoutId = None, channels = [], timers = [], next_id = 1, effects = []\<rparr>"

section \<open>Token-gated roles: \<open>computedValues\<close>, \<open>hasMinTokens\<close>, \<open>canAccessRole\<close>\<close>

record token_thresholds =
  CLIENT :: jsnum
  FREELANCER :: jsnum
  BOOSTED_FREELANCER :: jsnum

definition TOKEN_THRESHOLDS :: token_thresholds where
  "TOKEN_THRESHOLDS = \<lparr>CLIENT = Num 1000, FREELANCER = Num 10000, BOOSTED_FREELANCER = Num 50000\<rparr>"

record computed =
  isAuthenticated :: bool
  isClient :: bool
  isFreelancer :: bool
  isAdmin :: bool
  canBeClient :: bool
  canBeFreelancer :: bool
  isBoostedFreelancer :: bool
  effectiveRole :: "string js"
  storedRole :: "string js"
  isWalletConnected :: bool
  walletAddress :: "string js"
  tokenBalance :: jsnum
  liveTokenBalance_raw :: jsnum
  tokenThresholds :: token_thresholds

text \<open>\<open>profile?.token_balance || 0\<close>\<close>

definition profile_token_balance_or_0 :: "profile option \<Rightarrow> jsnum" where
  "profile_token_balance_or_0 p =
     (case p of None \<Rightarrow> Num 0
      | Some q \<Rightarrow> (case token_balance q of
                    Val n \<Rightarrow> if num_truthy n then n else Num 0
                  | _ \<Rightarrow> Num 0))"

text \<open>\<open>profile?.user_type\<close> and \<open>profile?.wallet_address\<close>\<close>

definition profile_user_type :: "profile option \<Rightarrow> string js" where
  "profile_user_type p = (case p of None \<Rightarrow> Undefined | Some q \<Rightarrow> user_type q)"

definition profile_wallet_address :: "profile option \<Rightarrow> string js" where
  "profile_wallet_address p = (case p of None \<Rightarrow> Undefined | Some q \<Rightarrow> wallet_address q)"

fun js_str_truthy :: "string js \<Rightarrow> bool" where
  "js_str_truthy (Val s) = str_truthy s"
| "js_str_truthy _ = False"

definition computedValues :: "auth_state \<Rightarrow> computed" where
  "computedValues s =
    (let tokenBalance = (if js_gt (liveTokenBalance s) (Num 0) then liveTokenBalance s
                         else profile_token_balance_or_0 (profile s));
         canBeClient = js_ge tokenBalance (CLIENT TOKEN_THRESHOLDS);
         canBeFreelancer = js_ge tokenBalance (FREELANCER TOKEN_THRESHOLDS);
         isBoostedFreelancer = js_ge tokenBalance (BOOSTED_FREELANCER TOKEN_THRESHOLDS);
         storedRole = profile_user_type (profile s);
         effectiveRole =
           (if storedRole = Val ''freelancer'' \<and> \<not> canBeFreelancer
              then (if canBeClient then Val ''client'' else Null)
            else if storedRole = Val ''client'' \<and> \<not> canBeClient
              then Null
            else storedRole);
         profileWallet =
           (if js_str_truthy (profile_wallet_address (profile s))
              then profile_wallet_address (profile s) else Null);
         localTruthy = (case localWalletAddress s of None \<Rightarrow> False | Some a \<Rightarrow> str_truthy a)
     in \<lparr>
       isAuthenticated = (user s \<noteq> None \<or> profile s \<noteq> None),
       isClient = (effectiveRole = Val ''client'' \<or> storedRole = Val ''admin''),
       isFreelancer = (effectiveRole = Val ''freelancer'' \<or> storedRole = Val ''admin''),
       isAdmin = (storedRole = Val ''admin''),
       canBeClient = canBeClient,
       canBeFreelancer = canBeFreelancer,
       isBoostedFreelancer = isBoostedFreelancer,
       effectiveRole = effectiveRole,
       storedRole = storedRole,
       isWalletConnected = (localTruthy \<or> js_str_truthy (profile_wallet_address (profile s))),
       walletAddress =
         (case localWalletAddress s of
            None \<Rightarrow> profileWallet
          | Some a \<Rightarrow> if str_truthy a then Val a else profileWallet),
       tokenBalance = tokenBalance,
       liveTokenBalance_raw = liveTokenBalance s,
       tokenThresholds = TOKEN_THRESHOLDS\<rparr>)"

definition hasMinTokens :: "auth_state \<Rightarrow> jsnum \<Rightarrow> bool" where
  "hasMinTokens s required = js_ge (tokenBalance (computedValues s)) required"

definition canAccessRole :: "auth_state \<Rightarrow> string \<Rightarrow> bool" where
  "canAccessRole s role =
     (if role = ''client'' then canBeClient (computedValues s)
      else if role = ''freelancer'' then canBeFreelancer (computedValues s)
      else if role = ''boosted'' then isBoostedFreelancer (computedValues s)
      else if role = ''admin'' then isAdmin (computedValues s)
      else False)"

section \<open>Answers of the collaborators\<close>

text \<open>
  A query of the hosted database resolves to \<open>{ data, error }\<close>. An awaited promise
  either rejects with an error or resolves.
\<close>

record 'a response =
  data :: "'a option"
  error :: "js_error option"

datatype 'a awaited = Rejected js_error | Resolved 'a

section \<open>\<open>updateProfile\<close>\<close>

type_synonym profile_updates = "(string \<times> string js) list"

definition updateProfile ::
  "auth_state \<Rightarrow> profile_updates \<Rightarrow> profile response awaited \<Rightarrow> profile response \<times> auth_state" where
  "updateProfile s updates db =
     (case user s of
        None \<Rightarrow> (\<lparr>data = None, error = Some (new_Error ''No user logged in'')\<rparr>, s)
      | Some u \<Rightarrow>
          (let s1 = s\<lparr>effects := effects s @ [DbUpdateProfile (user_id u) updates]\<rparr>
           in case db of
                Rejected e \<Rightarrow> (\<lparr>data = None, error = Some e\<rparr>, s1)
              | Resolved r \<Rightarrow>
                  (case error r of
                     Some e \<Rightarrow> (\<lparr>data = None, error = Some e\<rparr>, s1)
                   | None \<Rightarrow> (\<lparr>data = data r, error = None\<rparr>, s1\<lparr>profile := data r\<rparr>))))"

section \<open>\<open>fetchTokenBalance\<close>\<close>


definition TypeError :: "string \<Rightarrow> js_error" where
  "TypeError m = \<lparr>err_name = Some ''TypeError'', err_message = Some m, err_code = None\<rparr>"





text \<open>Sequencing of steps that may throw.\<close>

definition bind_err :: "js_error + 'a \<Rightarrow> ('a \<Rightarrow> js_error + 'b) \<Rightarrow> js_error + 'b" where
  "bind_err m f = (case m of Inl e \<Rightarrow> Inl e | Inr v \<Rightarrow> f v)"
















section \<open>\<open>withRetry\<close>, \<open>fetchProfile\<close>, \<open>fetchProfileByWallet\<close>\<close>

text \<open>
  Time is counted in milliseconds from the call. An attempt of a query settles after
  \<open>duration\<close> ms. A run of an asynchronous function records how it settles, when, how
  often it invoked the function it was given, and the delays it slept between.
\<close>

record 'a attempt =
  duration :: nat
  settles :: "'a awaited"

record 'a run =
  outcome :: "js_error + 'a"
  invocations :: nat
  sleeps :: "nat list"
  settled_at :: nat

text \<open>The value thrown by \<open>throw lastError\<close> when no error was ever caught.\<close>

definition thrown_undefined :: js_error where
  "thrown_undefined = \<lparr>err_name = None, err_message = None, err_code = None\<rparr>"

text \<open>
  The loop of \<open>withRetry\<close> from iteration \<open>attempt\<close> on, at time \<open>now\<close>, having slept
  \<open>slept\<close>. The \<open>k\<close>-th invocation of \<open>fn\<close> takes \<open>fst (fn k)\<close> ms and throws (\<open>Inl\<close>) or
  returns (\<open>Inr\<close>).
\<close>

function withRetry_loop ::
  "(nat \<Rightarrow> nat \<times> (js_error + 'a)) \<Rightarrow> nat \<Rightarrow> nat \<Rightarrow> (js_error \<Rightarrow> bool) \<Rightarrow>
     nat \<Rightarrow> js_error option \<Rightarrow> nat \<Rightarrow> nat list \<Rightarrow> 'a run" where
  "withRetry_loop fn retries baseDelay shouldRetry attempt lastError now slept =
     (if attempt \<le> retries then
        (case snd (fn attempt) of
           Inr v \<Rightarrow> \<lparr>outcome = Inr v, invocations = Suc attempt, sleeps = slept,
                     settled_at = now + fst (fn attempt)\<rparr>
         | Inl e \<Rightarrow>
             if isAbortError e then
               \<lparr>outcome = Inl e, invocations = Suc attempt, sleeps = slept,
                settled_at = now + fst (fn attempt)\<rparr>
             else if attempt < retries \<and> shouldRetry e then
               withRetry_loop fn retries baseDelay shouldRetry (Suc attempt) (Some e)
                 (now + fst (fn attempt) + baseDelay * 2 ^ attempt)
                 (slept @ [baseDelay * 2 ^ attempt])
             else
               \<lparr>outcome = Inl e, invocations = Suc attempt, sleeps = slept,
                settled_at = now + fst (fn attempt)\<rparr>)
      else
        \<lparr>outcome = Inl (case lastError of None \<Rightarrow> thrown_undefined | Some e \<Rightarrow> e),
         invocations = attempt, sleeps = slept, settled_at = now\<rparr>)"
  by pat_completeness auto
termination
  by (relation "measure (\<lambda>(fn, retries, baseDelay, shouldRetry, attempt, lastError, now, slept).
                  Suc retries - attempt)") auto

definition withRetry ::
  "(nat \<Rightarrow> nat \<times> (js_error + 'a)) \<Rightarrow> nat \<Rightarrow> nat \<Rightarrow> (js_error \<Rightarrow> bool) \<Rightarrow> 'a run" where
  "withRetry fn retries baseDelay shouldRetry =
     withRetry_loop fn retries baseDelay shouldRetry 0 None 0 []"

text \<open>
  \<open>fetchFn\<close>, the same in \<open>fetchProfile\<close> and in \<open>fetchProfileByWallet\<close> up to the column
  that is matched: a missing row (code \<open>PGRST116\<close>) is \<open>null\<close>, any other error is thrown.
\<close>

definition fetchFn :: "profile response awaited \<Rightarrow> js_error + profile option" where
  "fetchFn q =
     (case q of
        Rejected e \<Rightarrow> Inl e
      | Resolved r \<Rightarrow>
          (case error r of
             Some e \<Rightarrow> if err_code e = Some (CodeStr ''PGRST116'') then Inr None else Inl e
           | None \<Rightarrow> Inr (data r)))"

definition shouldRetry_profile :: "js_error \<Rightarrow> bool" where
  "shouldRetry_profile e =
     (message_includes e ''fetch'' \<or> message_includes e ''network'' \<or>
      message_includes e ''Failed to fetch'')"

record fetch_options =
  opt_timeout :: "nat option"
  opt_useRetry :: "bool option"

text \<open>
  \<open>Promise.race([p, timeoutPromise])\<close>: the promise \<open>p\<close> wins when it settles before the
  timer is due; from the due time on the race rejects with the timeout error.
\<close>

definition race_timeout :: "nat \<Rightarrow> 'a run \<Rightarrow> js_error + 'a" where
  "race_timeout ms r =
     (if settled_at r < ms then outcome r else Inl (new_Error ''Profile fetch timeout''))"

text \<open>The \<open>catch\<close> of both fetchers: an abort error becomes \<open>null\<close>.\<close>

definition ignore_abort :: "js_error + profile option \<Rightarrow> js_error + profile option" where
  "ignore_abort r = (case r of Inl e \<Rightarrow> if isAbortError e then Inr None else Inl e | Inr v \<Rightarrow> Inr v)"

text \<open>\<open>fetchPromise\<close> of \<open>fetchProfile\<close>; \<open>db k\<close> is the \<open>k\<close>-th attempt of the query.\<close>

definition fetchPromise ::
  "(nat \<Rightarrow> profile response attempt) \<Rightarrow> fetch_options \<Rightarrow> profile option run" where
  "fetchPromise db options =
     (let useRetry = (case opt_useRetry options of None \<Rightarrow> True | Some b \<Rightarrow> b);
          fn = (\<lambda>k. (duration (db k), fetchFn (settles (db k))))
      in if useRetry then withRetry fn 2 1000 shouldRetry_profile
         else \<lparr>outcome = snd (fn 0), invocations = 1, sleeps = [], settled_at = fst (fn 0)\<rparr>)"

definition fetchProfile ::
  "(nat \<Rightarrow> profile response attempt) \<Rightarrow> string \<Rightarrow> fetch_options \<Rightarrow> js_error + profile option" where
  "fetchProfile db userId options =
     (let ms = (case opt_timeout options of None \<Rightarrow> 5000 | Some t \<Rightarrow> t)
      in ignore_abort (race_timeout ms (fetchPromise db options)))"

definition fetchProfileByWallet ::
  "profile response attempt \<Rightarrow> string \<Rightarrow> nat option \<Rightarrow> js_error + profile option" where
  "fetchProfileByWallet q wallet opt_ms =
     (let ms = (case opt_ms of None \<Rightarrow> 5000 | Some t \<Rightarrow> t)
      in ignore_abort (race_timeout ms
           \<lparr>outcome = fetchFn (settles q), invocations = 1, sleeps = [], settled_at = duration q\<rparr>))"

section \<open>Realtime channel and timers\<close>

definition removeChannel :: "auth_state \<Rightarrow> channel \<Rightarrow> auth_state" where
  "removeChannel s ch =
     s\<lparr>channels := filter (\<lambda>c. chan_id c \<noteq> chan_id ch) (channels s),
       effects := effects s @ [RemoveChannel ch]\<rparr>"

definition setTimeout :: "auth_state \<Rightarrow> timer_task \<Rightarrow> nat \<Rightarrow> nat \<times> auth_state" where
  "setTimeout s tk ms =
     (let t = \<lparr>timer_id = next_id s, delay_ms = ms, task = tk\<rparr>
      in (next_id s,
          s\<lparr>timers := timers s @ [t], next_id := Suc (next_id s),
            effects := effects s @ [SetTimeout t]\<rparr>))"

definition clearTimeout :: "auth_state \<Rightarrow> nat \<Rightarrow> auth_state" where
  "clearTimeout s tid =
     s\<lparr>timers := filter (\<lambda>t. timer_id t \<noteq> tid) (timers s),
       effects := effects s @ [ClearTimeout tid]\<rparr>"

text \<open>
  \<open>subscribeToProfile\<close>. The cleanup function it returns is dropped by each of its
  callers, so the model returns the state only.
\<close>

definition subscribeToProfile :: "auth_state \<Rightarrow> string \<Rightarrow> auth_state" where
  "subscribeToProfile s userId =
     (let s1 = (case profileSubscriptionRef s of None \<Rightarrow> s | Some old \<Rightarrow> removeChannel s old);
          ch = \<lparr>chan_id = next_id s1, chan_user = userId\<rparr>
      in s1\<lparr>channels := channels s1 @ [ch], next_id := Suc (next_id s1),
            effects := effects s1 @ [ChannelSubscribe ch],
            profileSubscriptionRef := Some ch\<rparr>)"

text \<open>The callback of the channel, on a row update with \<open>payload.new\<close>.\<close>

definition onProfileChange :: "auth_state \<Rightarrow> profile option \<Rightarrow> auth_state" where
  "onProfileChange s payload_new =
     (case payload_new of
        None \<Rightarrow> s
      | Some p \<Rightarrow> if mountedRef s then s\<lparr>profile := Some p\<rparr> else s)"

section \<open>\<open>updateAuthState\<close> and its background retry\<close>

text \<open>
  An asynchronous function runs in segments: the code up to an \<open>await\<close>, and the code
  after it, which sees the state as it is by then. \<open>updateAuthState_begin\<close> is the
  segment up to \<open>await fetchProfile(...)\<close> and returns the fetch that is awaited;
  \<open>updateAuthState_settled\<close> is the rest, given how the fetch settled.
\<close>

record update_options =
  opt_retryInBackground :: "bool option"
  opt_isInitial :: "bool option"

record fetch_request =
  req_userId :: string
  req_options :: fetch_options

definition session_user_of :: "session option \<Rightarrow> user option" where
  "session_user_of sess = (case sess of None \<Rightarrow> None | Some x \<Rightarrow> session_user x)"

definition clear_background_retry :: "auth_state \<Rightarrow> auth_state" where
  "clear_background_retry s =
     (case backgroundRetryRef s of
        None \<Rightarrow> s
      | Some t \<Rightarrow> (clearTimeout s t)\<lparr>backgroundRetryRef := None\<rparr>)"

definition updateAuthState_begin ::
  "auth_state \<Rightarrow> session option \<Rightarrow> update_options \<Rightarrow> auth_state \<times> (user \<times> fetch_request) option" where
  "updateAuthState_begin s sess options =
     (let isInitial = (case opt_isInitial options of None \<Rightarrow> False | Some b \<Rightarrow> b);
          s1 = clear_background_retry s
      in case session_user_of sess of
           None \<Rightarrow> (s1\<lparr>user := None, profile := None, authError := None\<rparr>, None)
         | Some u \<Rightarrow>
             (s1\<lparr>user := Some u, authError := None, isProfileLoading := True\<rparr>,
              Some (u, \<lparr>req_userId = user_id u,
                        req_options = \<lparr>opt_timeout = Some (if isInitial then 5000 else 10000),
                                       opt_useRetry = Some True\<rparr>\<rparr>)))"

definition updateAuthState_settled ::
  "auth_state \<Rightarrow> user \<Rightarrow> update_options \<Rightarrow> js_error + profile option \<Rightarrow> auth_state" where
  "updateAuthState_settled s u options r =
     (let retryInBackground = (case opt_retryInBackground options of None \<Rightarrow> True | Some b \<Rightarrow> b);
          s1 = (case r of
                  Inr profileData \<Rightarrow>
                    if mountedRef s then
                      (case profileData of
                         None \<Rightarrow> s\<lparr>profile := None\<rparr>
                       | Some p \<Rightarrow> subscribeToProfile (s\<lparr>profile := Some p\<rparr>) (user_id u))
                    else s
                | Inl e \<Rightarrow>
                    (let isTimeout = message_includes e ''timeout''
                     in if mountedRef s then
                          (if isTimeout \<and> retryInBackground then
                             (let sched = setTimeout (s\<lparr>profile := None\<rparr>) (BackgroundRetry u) 3000
                              in (snd sched)\<lparr>backgroundRetryRef := Some (fst sched)\<rparr>)
                           else s\<lparr>profile := None\<rparr>)
                        else s))
      in if mountedRef s1 then s1\<lparr>isProfileLoading := False\<rparr> else s1)"

text \<open>The whole of \<open>updateAuthState\<close> when nothing else runs during the fetch.\<close>

definition updateAuthState ::
  "auth_state \<Rightarrow> session option \<Rightarrow> update_options \<Rightarrow> (nat \<Rightarrow> profile response attempt) \<Rightarrow> auth_state" where
  "updateAuthState s sess options db =
     (case updateAuthState_begin s sess options of
        (s1, None) \<Rightarrow> s1
      | (s1, Some (u, req)) \<Rightarrow>
          updateAuthState_settled s1 u options (fetchProfile db (req_userId req) (req_options req)))"

text \<open>
  The callback of the background timer: the segment up to its \<open>await fetchProfile(...)\<close>
  issues the fetch unless the provider is unmounted; the rest runs when the fetch settled.
\<close>

definition backgroundRetry_fire :: "auth_state \<Rightarrow> user \<Rightarrow> fetch_request option" where
  "backgroundRetry_fire s u =
     (if \<not> mountedRef s then None
      else Some \<lparr>req_userId = user_id u,
                 req_options = \<lparr>opt_timeout = Some 15000, opt_useRetry = Some True\<rparr>\<rparr>)"

definition backgroundRetry_settled ::
  "auth_state \<Rightarrow> user \<Rightarrow> js_error + profile option \<Rightarrow> auth_state" where
  "backgroundRetry_settled s u r =
     (case r of
        Inl retryError \<Rightarrow> s
      | Inr None \<Rightarrow> s
      | Inr (Some p) \<Rightarrow>
          if mountedRef s then subscribeToProfile (s\<lparr>profile := Some p\<rparr>) (user_id u) else s)"

definition backgroundRetry ::
  "auth_state \<Rightarrow> user \<Rightarrow> (nat \<Rightarrow> profile response attempt) \<Rightarrow> auth_state" where
  "backgroundRetry s u db =
     (case backgroundRetry_fire s u of
        None \<Rightarrow> s
      | Some req \<Rightarrow> backgroundRetry_settled s u (fetchProfile db (req_userId req) (req_options req)))"

text \<open>
  A pending timer comes due: it leaves the pending timers and its callback runs. For the
  background retry this is the segment \<open>backgroundRetry_fire\<close>, which changes no state.
\<close>

definition timer_fires :: "auth_state \<Rightarrow> nat \<Rightarrow> auth_state" where
  "timer_fires s tid =
     (case find (\<lambda>t. timer_id t = tid) (timers s) of
        None \<Rightarrow> s
      | Some t \<Rightarrow>
          (let s1 = s\<lparr>timers := filter (\<lambda>x. timer_id x \<noteq> tid) (timers s)\<rparr>
           in case task t of
                BackgroundRetry u \<Rightarrow> s1
              | InitFallback \<Rightarrow>
                  if mountedRef s1 \<and> \<not> initCompleteRef s1
                  then s1\<lparr>isLoading := False, initCompleteRef := True\<rparr> else s1))"

section \<open>Mounting, the auth-event listener, \<open>signIn\<close>, \<open>signOut\<close>\<close>

text \<open>
  The synchronous part of the mount effect that touches refs and timers, and the cleanup
  the effect returns.
\<close>

definition mount :: "auth_state \<Rightarrow> auth_state" where
  "mount s =
     (let sched = setTimeout (s\<lparr>mountedRef := True\<rparr>) InitFallback 12000
      in (snd sched)\<lparr>fallbackTimeoutId := Some (fst sched)\<rparr>)"

definition unmount :: "auth_state \<Rightarrow> auth_state" where
  "unmount s =
     (let s1 = s\<lparr>mountedRef := False\<rparr>;
          s2 = (case fallbackTimeoutId s1 of None \<Rightarrow> s1 | Some t \<Rightarrow> clearTimeout s1 t);
          s3 = (case backgroundRetryRef s2 of None \<Rightarrow> s2 | Some t \<Rightarrow> clearTimeout s2 t)
      in case profileSubscriptionRef s3 of None \<Rightarrow> s3 | Some ch \<Rightarrow> removeChannel s3 ch)"

text \<open>The block that both the sign-out events and \<open>signOut\<close> run first.\<close>

definition cleanup_profile_subscription :: "auth_state \<Rightarrow> auth_state" where
  "cleanup_profile_subscription s =
     (case profileSubscriptionRef s of
        None \<Rightarrow> s
      | Some ch \<Rightarrow> (removeChannel s ch)\<lparr>profileSubscriptionRef := None\<rparr>)"

text \<open>
  The listener given to \<open>onAuthStateChange\<close>: the segment up to its
  \<open>await updateAuthState(...)\<close> (whose own first segment runs with it), and the
  statements after that \<open>await\<close>.
\<close>

definition onAuthStateChange_begin ::
  "auth_state \<Rightarrow> string \<Rightarrow> session option \<Rightarrow>
     auth_state \<times> (user \<times> fetch_request \<times> update_options) option" where
  "onAuthStateChange_begin s ev sess =
     (let initial = \<lparr>opt_retryInBackground = None, opt_isInitial = Some True\<rparr>;
          plain = \<lparr>opt_retryInBackground = None, opt_isInitial = None\<rparr>;
          start = (\<lambda>options.
             case updateAuthState_begin s sess options of
               (s1, None) \<Rightarrow> (s1, None)
             | (s1, Some (u, req)) \<Rightarrow> (s1, Some (u, req, options)))
      in if \<not> mountedRef s then (s, None)
         else if ev = ''TOKEN_REFRESHED'' \<and> sess = None then
           (s\<lparr>user := None, profile := None, isLoading := False\<rparr>, None)
         else if ev = ''INITIAL_SESSION'' then
           (if \<not> initCompleteRef s \<and> session_user_of sess \<noteq> None then start initial
            else (s\<lparr>initCompleteRef := True\<rparr>, None))
         else if ev = ''SIGNED_IN'' \<or> ev = ''TOKEN_REFRESHED'' \<or> ev = ''USER_UPDATED'' then
           (if session_user_of sess \<noteq> None then start plain
            else (s\<lparr>isLoading := False\<rparr>, None))
         else if ev = ''SIGNED_OUT'' \<or> ev = ''USER_DELETED'' then
           ((cleanup_profile_subscription s)\<lparr>user := None, profile := None, isLoading := False\<rparr>,
            None)
         else (s, None))"

definition onAuthStateChange_end :: "auth_state \<Rightarrow> string \<Rightarrow> auth_state" where
  "onAuthStateChange_end s ev =
     (if ev = ''INITIAL_SESSION'' then s\<lparr>isLoading := False, initCompleteRef := True\<rparr>
      else s\<lparr>isLoading := False\<rparr>)"

definition onAuthStateChange ::
  "auth_state \<Rightarrow> string \<Rightarrow> session option \<Rightarrow> (nat \<Rightarrow> profile response attempt) \<Rightarrow> auth_state" where
  "onAuthStateChange s ev sess db =
     (case onAuthStateChange_begin s ev sess of
        (s1, None) \<Rightarrow> s1
      | (s1, Some (u, req, options)) \<Rightarrow>
          onAuthStateChange_end
            (updateAuthState_settled s1 u options (fetchProfile db (req_userId req) (req_options req)))
            ev)"

text \<open>\<open>signOut\<close>: up to \<open>await supabase.auth.signOut()\<close>, and after it.\<close>

definition signOut_begin :: "auth_state \<Rightarrow> auth_state" where
  "signOut_begin s =
     (let s1 = cleanup_profile_subscription s;
          s2 = clear_background_retry s1
      in s2\<lparr>effects := effects s2 @ [AuthSignOut]\<rparr>)"

definition signOut_settled ::
  "auth_state \<Rightarrow> js_error option awaited \<Rightarrow> js_error option \<times> auth_state" where
  "signOut_settled s a =
     (case a of
        Rejected e \<Rightarrow> (Some e, s)
      | Resolved None \<Rightarrow> (None, s\<lparr>user := None, profile := None, authError := None\<rparr>)
      | Resolved (Some e) \<Rightarrow> (Some e, s))"

definition signOut :: "auth_state \<Rightarrow> js_error option awaited \<Rightarrow> js_error option \<times> auth_state" where
  "signOut s a = signOut_settled (signOut_begin s) a"

text \<open>
  \<open>signIn\<close>: up to \<open>await signInWithPassword\<close>; from its answer to
  \<open>await fetchProfile\<close>; and the rest. \<open>data\<close> of the answer is \<open>{ user, session }\<close>.
\<close>

record auth_data =
  ad_user :: "user option"
  ad_session :: "session option"

definition signIn_begin :: "auth_state \<Rightarrow> string \<Rightarrow> string \<Rightarrow> auth_state" where
  "signIn_begin s mail password =
     s\<lparr>authError := None, effects := effects s @ [AuthSignInWithPassword mail password]\<rparr>"

definition email_not_confirmed :: js_error where
  "email_not_confirmed =
     \<lparr>err_name = Some ''Error'',
      err_message = Some ''Please confirm your email address before signing in. Check your inbox for the confirmation link.'',
      err_code = Some (CodeStr ''email_not_confirmed'')\<rparr>"

text \<open>Either the result \<open>signIn\<close> returns at once, or the user whose profile it fetches.\<close>

definition signIn_authed ::
  "auth_state \<Rightarrow> auth_data response awaited \<Rightarrow>
     auth_state \<times> (auth_data response + user \<times> fetch_request)" where
  "signIn_authed s a =
     (let failed = (\<lambda>e. (s\<lparr>authError := Some e\<rparr>, Inl \<lparr>data = None, error = Some e\<rparr>))
      in case a of
           Rejected e \<Rightarrow> failed e
         | Resolved r \<Rightarrow>
             (case error r of
                Some e \<Rightarrow>
                  if message_includes e ''Email not confirmed'' then failed email_not_confirmed
                  else failed e
              | None \<Rightarrow>
                  (case data r of
                     None \<Rightarrow> failed (TypeError ''Cannot read properties of null'')
                   | Some d \<Rightarrow>
                       (case ad_user d of
                          None \<Rightarrow> (s, Inl \<lparr>data = Some d, error = None\<rparr>)
                        | Some u \<Rightarrow>
                            (s, Inr (u, \<lparr>req_userId = user_id u,
                                         req_options = \<lparr>opt_timeout = Some 5000,
                                                        opt_useRetry = None\<rparr>\<rparr>))))))"

definition signIn_fetched ::
  "auth_state \<Rightarrow> user \<Rightarrow> js_error + profile option \<Rightarrow> auth_state" where
  "signIn_fetched s u r =
     (case r of
        Inl profileError \<Rightarrow> s
      | Inr None \<Rightarrow> s\<lparr>profile := None\<rparr>
      | Inr (Some p) \<Rightarrow> subscribeToProfile (s\<lparr>profile := Some p\<rparr>) (user_id u))"

section \<open>\<open>connectWallet\<close> and \<open>signInWithWallet\<close>\<close>

text \<open>
  What the collaborators answer during one wallet connection: the wallet extension, the
  number \<open>fetchTokenBalance\<close> resolves to, the lookup of the profile by wallet address,
  and the update of the profile row.
\<close>

datatype phantom = NotInstalled | ConnectRejected js_error | Connected string

record connect_env =
  phantom :: phantom
  balanceFetched :: jsnum
  walletQuery :: "profile response attempt"
  updateQuery :: "profile response awaited"

record connect_result =
  cr_address :: "string option"
  cr_profile :: "profile option"
  cr_profileExists :: "bool option"
  cr_tokenBalance :: "jsnum option"
  cr_error :: "js_error option"

definition only_error :: "js_error \<Rightarrow> connect_result" where
  "only_error e =
     \<lparr>cr_address = None, cr_profile = None, cr_profileExists = None, cr_tokenBalance = None,
      cr_error = Some e\<rparr>"

definition connectWallet :: "auth_state \<Rightarrow> connect_env \<Rightarrow> connect_result \<times> auth_state" where
  "connectWallet s env =
     (let s0 = s\<lparr>isWalletConnecting := True\<rparr>
      in case phantom env of
           NotInstalled \<Rightarrow>
             (only_error (new_Error ''Phantom wallet not installed''),
              s0\<lparr>effects := effects s0 @ [WindowOpen ''https://phantom.app/''],
                 isWalletConnecting := False\<rparr>)
         | ConnectRejected err \<Rightarrow>
             (let s1 = s0\<lparr>effects := effects s0 @ [PhantomConnect], isWalletConnecting := False\<rparr>
              in if err_code err = Some (CodeNum 4001) then
                   (only_error (new_Error ''Connection rejected by user''), s1)
                 else if message_includes err ''Unexpected error'' then
                   (only_error (new_Error ''Phantom extension error - try reinstalling''),
                    s1\<lparr>effects := effects s1 @ [Alert]\<rparr>)
                 else (only_error err, s1))
         | Connected address \<Rightarrow>
             (let s1 = s0\<lparr>effects := effects s0 @ [PhantomConnect],
                         localWalletAddress := Some address,
                         liveTokenBalance := balanceFetched env\<rparr>;
                  existingProfile =
                    (case fetchProfileByWallet (walletQuery env) address None of
                       Inl err \<Rightarrow> None
                     | Inr found \<Rightarrow> found);
                  s2 = (if user s \<noteq> None \<and> existingProfile = None
                        then snd (updateProfile s1 [(''wallet_address'', Val address)] (updateQuery env))
                        else s1)
              in (\<lparr>cr_address = Some address, cr_profile = existingProfile,
                   cr_profileExists = Some (existingProfile \<noteq> None),
                   cr_tokenBalance = Some (balanceFetched env), cr_error = None\<rparr>,
                  s2\<lparr>isWalletConnecting := False\<rparr>)))"

record signin_data =
  sd_profile :: "profile option"
  sd_address :: string
  isNewUser :: bool

definition signInWithWallet ::
  "auth_state \<Rightarrow> connect_env \<Rightarrow> signin_data response \<times> auth_state" where
  "signInWithWallet s env =
     (let s0 = s\<lparr>authError := None, isWalletConnecting := True\<rparr>;
          connected = connectWallet s0 env;
          res = fst connected;
          s1 = snd connected;
          no_address = (let e = new_Error ''No wallet address received''
                        in (\<lparr>data = None, error = Some e\<rparr>,
                            s1\<lparr>authError := Some e, isWalletConnecting := False\<rparr>))
      in case cr_error res of
           Some connectError \<Rightarrow>
             (\<lparr>data = None, error = Some connectError\<rparr>,
              s1\<lparr>authError := Some connectError, isWalletConnecting := False\<rparr>)
         | None \<Rightarrow>
             (case cr_address res of
                None \<Rightarrow> no_address
              | Some address \<Rightarrow>
                  if \<not> str_truthy address then no_address
                  else
                    (case cr_profile res of
                       Some walletProfile \<Rightarrow>
                         (\<lparr>data = Some \<lparr>sd_profile = Some walletProfile, sd_address = address,
                                         isNewUser = False\<rparr>,
                           error = None\<rparr>,
                          s1\<lparr>profile := Some walletProfile, isWalletConnecting := False\<rparr>)
                     | None \<Rightarrow>
                         (\<lparr>data = Some \<lparr>sd_profile = None, sd_address = address,
                                         isNewUser = True\<rparr>,
                           error = None\<rparr>,
                          s1\<lparr>isWalletConnecting := False\<rparr>))))"

section \<open>The hosted-auth client\<close>

text \<open>The \<open>auth\<close> options given to \<open>createClient\<close> in \<open>src/lib/supabase.js\<close>.\<close>

record auth_config =
  autoRefreshToken :: bool
  persistSession :: bool
  detectSessionInUrl :: bool
  storageKey :: string


text \<open>
  An effect that leaves something behind when the page is gone: an update of a row of the
  hosted database, and, when the client is told to persist sessions, a sign-in, whose
  session the client keeps in the browser's storage under \<open>storageKey\<close>.
\<close>

fun durable_write :: "auth_config \<Rightarrow> effect \<Rightarrow> bool" where
  "durable_write cfg (DbUpdateProfile uid updates) = True"
| "durable_write cfg (AuthSignInWithPassword mail password) = persistSession cfg"
| "durable_write cfg e = False"

section \<open>Everything that can happen to the provider\<close>

text \<open>
  Every other operation of the provider (\<open>initializeAuth\<close>, \<open>signUp\<close>,
  \<open>refreshProfile\<close>, \<open>forceRefreshAuth\<close>, \<open>registerWithWallet\<close>, \<open>disconnectWallet\<close>,
  \<open>clearAuthError\<close>, the visibility and wallet listeners) acts on the state, the refs,
  the channels and the timers through the \<open>useState\<close> setters, through the assignment
  \<open>initCompleteRef.current = true\<close>, and through \<open>updateAuthState\<close> and
  \<open>updateProfile\<close>. Their own calls of the hosted-auth client and of the database are
  not modelled.
\<close>

datatype setter =
    SetUser "user option"
  | SetProfile "profile option"
  | SetIsLoading bool
  | SetIsProfileLoading bool
  | SetAuthError "js_error option"
  | SetLocalWalletAddress "string option"
  | SetIsWalletConnecting bool
  | SetLiveTokenBalance jsnum
  | SetInitComplete

fun apply_setter :: "auth_state \<Rightarrow> setter \<Rightarrow> auth_state" where
  "apply_setter s (SetUser v) = s\<lparr>user := v\<rparr>"
| "apply_setter s (SetProfile v) = s\<lparr>profile := v\<rparr>"
| "apply_setter s (SetIsLoading v) = s\<lparr>isLoading := v\<rparr>"
| "apply_setter s (SetIsProfileLoading v) = s\<lparr>isProfileLoading := v\<rparr>"
| "apply_setter s (SetAuthError v) = s\<lparr>authError := v\<rparr>"
| "apply_setter s (SetLocalWalletAddress v) = s\<lparr>localWalletAddress := v\<rparr>"
| "apply_setter s (SetIsWalletConnecting v) = s\<lparr>isWalletConnecting := v\<rparr>"
| "apply_setter s (SetLiveTokenBalance v) = s\<lparr>liveTokenBalance := v\<rparr>"
| "apply_setter s SetInitComplete = s\<lparr>initCompleteRef := True\<rparr>"

text \<open>
  An event is one segment of one operation, with what the collaborators answered.
  Segments of different operations may interleave in any order.
\<close>

datatype event =
    Mount
  | Unmount
  | TimerFires nat
  | BackgroundRetrySettled user "js_error + profile option"
  | UpdateAuthStateBegin "session option" update_options
  | UpdateAuthStateSettled user update_options "js_error + profile option"
  | AuthStateChangeBegin string "session option"
  | AuthStateChangeEnd string
  | SignInBegin string string
  | SignInAuthed "auth_data response awaited"
  | SignInFetched user "js_error + profile option"
  | SignOutBegin
  | SignOutSettled "js_error option awaited"
  | UpdateProfile profile_updates "profile response awaited"
  | ConnectWallet connect_env
  | SignInWithWallet connect_env
  | ProfileChange "profile option"
  | Setter setter

fun step :: "auth_state \<Rightarrow> event \<Rightarrow> auth_state" where
  "step s Mount = mount s"
| "step s Unmount = unmount s"
| "step s (TimerFires tid) = timer_fires s tid"
| "step s (BackgroundRetrySettled u r) = backgroundRetry_settled s u r"
| "step s (UpdateAuthStateBegin sess options) = fst (updateAuthState_begin s sess options)"
| "step s (UpdateAuthStateSettled u options r) = updateAuthState_settled s u options r"
| "step s (AuthStateChangeBegin ev sess) = fst (onAuthStateChange_begin s ev sess)"
| "step s (AuthStateChangeEnd ev) = onAuthStateChange_end s ev"
| "step s (SignInBegin mail password) = signIn_begin s mail password"
| "step s (SignInAuthed a) = fst (signIn_authed s a)"
| "step s (SignInFetched u r) = signIn_fetched s u r"
| "step s SignOutBegin = signOut_begin s"
| "step s (SignOutSettled a) = snd (signOut_settled s a)"
| "step s (UpdateProfile updates db) = snd (updateProfile s updates db)"
| "step s (ConnectWallet env) = snd (connectWallet s env)"
| "step s (SignInWithWallet env) = snd (signInWithWallet s env)"
| "step s (ProfileChange payload_new) = onProfileChange s payload_new"
| "step s (Setter x) = apply_setter s x"

definition run :: "auth_state \<Rightarrow> event list \<Rightarrow> auth_state" where
  "run s evs = foldl step s evs"

section \<open>Example inputs\<close>

definition alice :: profile where
  "alice = \<lparr>profile_id = ''u-alice'', nickname = Val ''alice'', user_type = Val ''freelancer'',
            wallet_address = Val ''WalletA'', token_balance = Val (Num 50000)\<rparr>"

definition alice_user :: user where
  "alice_user = \<lparr>user_id = ''u-alice'', email = Val ''alice@example.org''\<rparr>"

text \<open>A soft login: Alice's profile row is the identity, no hosted-auth user.\<close>

definition soft_login :: auth_state where
  "soft_login = initial_state\<lparr>profile := Some alice\<rparr>"

text \<open>A profile with the given stored role, and a state with a live balance and that profile.\<close>

definition with_role :: "string \<Rightarrow> profile" where
  "with_role r = alice\<lparr>user_type := Val r, token_balance := Null\<rparr>"

definition holding :: "real \<Rightarrow> string \<Rightarrow> auth_state" where
  "holding b r = initial_state\<lparr>profile := Some (with_role r), liveTokenBalance := Num b\<rparr>"





text \<open>
  A query that fails twice on the network, after 100 ms and 200 ms, and then finds Alice's
  row after 50 ms; a query that is aborted; a missing row; and a query slower than any
  timeout in use.
\<close>

definition network_error :: js_error where
  "network_error = \<lparr>err_name = None, err_message = Some ''TypeError: Failed to fetch'',
                     err_code = Some (CodeStr '''')\<rparr>"

definition abort_error :: js_error where
  "abort_error = \<lparr>err_name = None, err_message = Some ''AbortError: The user aborted a request.'',
                   err_code = Some (CodeStr '''')\<rparr>"

definition no_rows :: js_error where
  "no_rows = \<lparr>err_name = None, err_message = Some ''JSON object requested, multiple (or no) rows returned'',
               err_code = Some (CodeStr ''PGRST116'')\<rparr>"

definition found_alice :: "profile response" where
  "found_alice = \<lparr>data = Some alice, error = None\<rparr>"

definition flaky_db :: "nat \<Rightarrow> profile response attempt" where
  "flaky_db k =
     (if k = 0 then \<lparr>duration = 100, settles = Resolved \<lparr>data = None, error = Some network_error\<rparr>\<rparr>
      else if k = 1 then \<lparr>duration = 200, settles = Resolved \<lparr>data = None, error = Some network_error\<rparr>\<rparr>
      else \<lparr>duration = 50, settles = Resolved found_alice\<rparr>)"

definition aborted_db :: "nat \<Rightarrow> profile response attempt" where
  "aborted_db k = \<lparr>duration = 300, settles = Resolved \<lparr>data = None, error = Some abort_error\<rparr>\<rparr>"

definition empty_db :: "nat \<Rightarrow> profile response attempt" where
  "empty_db k = \<lparr>duration = 80, settles = Resolved \<lparr>data = None, error = Some no_rows\<rparr>\<rparr>"

definition slow_db :: "nat \<Rightarrow> profile response attempt" where
  "slow_db k = \<lparr>duration = 20000, settles = Resolved found_alice\<rparr>"

definition default_options :: fetch_options where
  "default_options = \<lparr>opt_timeout = None, opt_useRetry = None\<rparr>"

text \<open>
  A hosted-auth login of Alice; the answers while wallet A (Alice's row matches) and
  wallet B (no row) are connected.
\<close>

definition email_login :: auth_state where
  "email_login = initial_state\<lparr>user := Some alice_user, profile := Some alice, isLoading := False\<rparr>"

definition env_wallet_a :: connect_env where
  "env_wallet_a =
     \<lparr>phantom = Connected ''WalletA'', balanceFetched = Num 12000,
      walletQuery = \<lparr>duration = 120, settles = Resolved found_alice\<rparr>,
      updateQuery = Resolved found_alice\<rparr>"

definition env_wallet_b :: connect_env where
  "env_wallet_b =
     \<lparr>phantom = Connected ''WalletB'', balanceFetched = Num 0,
      walletQuery = \<lparr>duration = 80, settles = Resolved \<lparr>data = None, error = Some no_rows\<rparr>\<rparr>,
      updateQuery = Resolved \<lparr>data = Some (alice\<lparr>wallet_address := Val ''WalletB''\<rparr>), error = None\<rparr>\<rparr>"

text \<open>Alice signed in, and the provider unmounted while a fetch of her profile is awaited.\<close>

definition unmounted_login :: auth_state where
  "unmounted_login = email_login\<lparr>mountedRef := False, isProfileLoading := True\<rparr>"

definition plain_options :: update_options where
  "plain_options = \<lparr>opt_retryInBackground = None, opt_isInitial = None\<rparr>"

definition alice_session :: session where
  "alice_session = \<lparr>session_user = Some alice_user, expires_at = Some 2000000000\<rparr>"

text \<open>
  Alice signs in: \<open>signIn\<close> fetches her profile and subscribes, and the \<open>SIGNED_IN\<close> event
  runs \<open>updateAuthState\<close>, which subscribes again.
\<close>

definition sign_in_events :: "event list" where
  "sign_in_events =
     [SignInBegin ''alice@example.org'' ''secret'',
      SignInAuthed (Resolved \<lparr>data = Some \<lparr>ad_user = Some alice_user, ad_session = Some alice_session\<rparr>,
                              error = None\<rparr>),
      AuthStateChangeBegin ''SIGNED_IN'' (Some alice_session),
      SignInFetched alice_user (Inr (Some alice)),
      UpdateAuthStateSettled alice_user plain_options (Inr (Some alice)),
      AuthStateChangeEnd ''SIGNED_IN'']"

section \<open>The invariant of the profile channel\<close>

text \<open>No channel is subscribed, or exactly one is and the ref holds it.\<close>

definition chan_inv :: "auth_state \<Rightarrow> bool" where
  "chan_inv s =
     (channels s = [] \<or> (\<exists>c. channels s = [c] \<and> profileSubscriptionRef s = Some c))"

section \<open>Token-gated roles\<close>

lemma computed_flags:
  "tokenBalance (computedValues s) =
     (if js_gt (liveTokenBalance s) (Num 0) then liveTokenBalance s
      else profile_token_balance_or_0 (profile s))"
  "canBeClient (computedValues s) = js_ge (tokenBalance (computedValues s)) (Num 1000)"
  "canBeFreelancer (computedValues s) = js_ge (tokenBalance (computedValues s)) (Num 10000)"
  "isBoostedFreelancer (computedValues s) = js_ge (tokenBalance (computedValues s)) (Num 50000)"
  by (simp_all add: computedValues_def Let_def TOKEN_THRESHOLDS_def)

lemma computed_roles:
  "storedRole (computedValues s) = profile_user_type (profile s)"
  "effectiveRole (computedValues s) =
     (if profile_user_type (profile s) = Val ''freelancer'' \<and> \<not> canBeFreelancer (computedValues s)
        then (if canBeClient (computedValues s) then Val ''client'' else Null)
      else if profile_user_type (profile s) = Val ''client'' \<and> \<not> canBeClient (computedValues s)
        then Null
      else profile_user_type (profile s))"
  "isClient (computedValues s) =
     (effectiveRole (computedValues s) = Val ''client'' \<or> profile_user_type (profile s) = Val ''admin'')"
  "isFreelancer (computedValues s) =
     (effectiveRole (computedValues s) = Val ''freelancer'' \<or> profile_user_type (profile s) = Val ''admin'')"
  "isAdmin (computedValues s) = (profile_user_type (profile s) = Val ''admin'')"
  "isAuthenticated (computedValues s) = (user s \<noteq> None \<or> profile s \<noteq> None)"
  by (simp_all add: computedValues_def Let_def)

lemma js_ge_antitone: "js_ge t r \<Longrightarrow> js_le r' r \<Longrightarrow> js_ge t r'"
  by (cases t; cases r; cases r') auto

lemma holding_balance [simp]:
  "liveTokenBalance (holding b r) = Num b"
  "profile (holding b r) = Some (with_role r)"
  "user (holding b r) = None"
  by (simp_all add: holding_def initial_state_def)

lemma holding_role [simp]:
  "profile_user_type (Some (with_role r)) = Val r"
  "profile_token_balance_or_0 (Some (with_role r)) = Num 0"
  by (simp_all add: profile_user_type_def profile_token_balance_or_0_def with_role_def)

lemma initial_state_fields:
  "user initial_state = None" "profile initial_state = None" "effects initial_state = []"
  "channels initial_state = []" "timers initial_state = []" "mountedRef initial_state"
  "backgroundRetryRef initial_state = None" "profileSubscriptionRef initial_state = None"
  "next_id initial_state = 1"
  by (simp_all add: initial_state_def)

lemma soft_login_fields [simp]:
  "user soft_login = None"
  "profile soft_login = Some alice"
  "liveTokenBalance soft_login = Num 0"
  by (simp_all add: soft_login_def initial_state_def)

text \<open>
  C1 (as stated, refuted). With no live balance (0) and a stored profile balance of 50000
  the flag \<open>canBeClient\<close> holds although the fetched on-chain balance is below 1000.
\<close>

theorem C1_fetched_balance_counterexample:
  "\<not> (canBeClient (computedValues soft_login) = js_ge (liveTokenBalance soft_login) (Num 1000))"
  by (simp add: computed_flags profile_token_balance_or_0_def alice_def)

text \<open>
  C1 (amended). For every identity state the flags compare the effective token balance
  with the fixed thresholds: \<open>canBeClient\<close> iff it is at least 1000, \<open>canBeFreelancer\<close> iff
  at least 10000, \<open>isBoostedFreelancer\<close> iff at least 50000, and \<open>hasMinTokens r\<close> iff at
  least \<open>r\<close>. The effective balance is the fetched on-chain balance when that is
  positive, and otherwise the balance stored in the profile row (0 when there is none).
\<close>

theorem C1_flags_compare_effective_balance:
  "canBeClient (computedValues s) = js_ge (tokenBalance (computedValues s)) (Num 1000) \<and>
   canBeFreelancer (computedValues s) = js_ge (tokenBalance (computedValues s)) (Num 10000) \<and>
   isBoostedFreelancer (computedValues s) = js_ge (tokenBalance (computedValues s)) (Num 50000) \<and>
   hasMinTokens s r = js_ge (tokenBalance (computedValues s)) r \<and>
   tokenBalance (computedValues s) =
     (if js_gt (liveTokenBalance s) (Num 0) then liveTokenBalance s
      else (case profile s of
              None \<Rightarrow> Num 0
            | Some p \<Rightarrow> (case token_balance p of
                           Val n \<Rightarrow> if num_truthy n then n else Num 0
                         | _ \<Rightarrow> Num 0)))"
  by (simp add: computed_flags hasMinTokens_def profile_token_balance_or_0_def)

theorem C1_flags_witness:
  "canBeClient (computedValues (holding 12000 ''client'')) \<and>
   canBeFreelancer (computedValues (holding 12000 ''client'')) \<and>
   \<not> isBoostedFreelancer (computedValues (holding 12000 ''client'')) \<and>
   hasMinTokens (holding 12000 ''client'') (Num 12000) \<and>
   tokenBalance (computedValues (holding 12000 ''client'')) = Num 12000"
  using C1_flags_compare_effective_balance [of "holding 12000 ''client''" "Num 12000"]
  by simp

text \<open>
  C2. The effective role is a function of the profile and the balance alone. It is the
  stored role of the profile, except that a stored \<open>freelancer\<close> without
  \<open>canBeFreelancer\<close> becomes \<open>client\<close> when \<open>canBeClient\<close> holds and no role otherwise, and
  a stored \<open>client\<close> without \<open>canBeClient\<close> becomes no role. A stored \<open>admin\<close> is client,
  freelancer and admin whatever the balance.
\<close>

theorem C2_effective_role:
  "(profile s = profile s' \<and> liveTokenBalance s = liveTokenBalance s' \<longrightarrow>
      effectiveRole (computedValues s) = effectiveRole (computedValues s') \<and>
      isClient (computedValues s) = isClient (computedValues s') \<and>
      isFreelancer (computedValues s) = isFreelancer (computedValues s') \<and>
      isAdmin (computedValues s) = isAdmin (computedValues s')) \<and>
   storedRole (computedValues s) = (case profile s of None \<Rightarrow> Undefined | Some p \<Rightarrow> user_type p) \<and>
   (storedRole (computedValues s) = Val ''freelancer'' \<and> \<not> canBeFreelancer (computedValues s) \<and>
      canBeClient (computedValues s) \<longrightarrow> effectiveRole (computedValues s) = Val ''client'') \<and>
   (storedRole (computedValues s) = Val ''freelancer'' \<and> \<not> canBeFreelancer (computedValues s) \<and>
      \<not> canBeClient (computedValues s) \<longrightarrow> effectiveRole (computedValues s) = Null) \<and>
   (storedRole (computedValues s) = Val ''client'' \<and> \<not> canBeClient (computedValues s)
      \<longrightarrow> effectiveRole (computedValues s) = Null) \<and>
   (\<not> (storedRole (computedValues s) = Val ''freelancer'' \<and> \<not> canBeFreelancer (computedValues s)) \<and>
    \<not> (storedRole (computedValues s) = Val ''client'' \<and> \<not> canBeClient (computedValues s))
      \<longrightarrow> effectiveRole (computedValues s) = storedRole (computedValues s)) \<and>
   (storedRole (computedValues s) = Val ''admin'' \<longrightarrow>
      isClient (computedValues s) \<and> isFreelancer (computedValues s) \<and> isAdmin (computedValues s))"
proof -
  let ?cv = "computedValues s"
  have dep: "tokenBalance (computedValues s) = tokenBalance (computedValues s')"
    if "profile s = profile s'" "liveTokenBalance s = liveTokenBalance s'"
    using that by (simp add: computed_flags)
  have same: "effectiveRole (computedValues s) = effectiveRole (computedValues s') \<and>
      isClient (computedValues s) = isClient (computedValues s') \<and>
      isFreelancer (computedValues s) = isFreelancer (computedValues s') \<and>
      isAdmin (computedValues s) = isAdmin (computedValues s')"
    if eq: "profile s = profile s' \<and> liveTokenBalance s = liveTokenBalance s'"
  proof -
    from eq have tb: "tokenBalance (computedValues s) = tokenBalance (computedValues s')"
      by (simp add: dep)
    have er: "effectiveRole (computedValues s) = effectiveRole (computedValues s')"
      unfolding computed_roles(2) computed_flags(2,3) tb using eq by simp
    show ?thesis
      unfolding computed_roles(3,4,5) er using eq by simp
  qed
  have stored: "storedRole ?cv = (case profile s of None \<Rightarrow> Undefined | Some p \<Rightarrow> user_type p)"
    by (simp add: computed_roles(1) profile_user_type_def)
  have sr: "profile_user_type (profile s) = storedRole ?cv"
    by (simp add: computed_roles(1))
  have down1: "effectiveRole ?cv = Val ''client''"
    if "storedRole ?cv = Val ''freelancer'' \<and> \<not> canBeFreelancer ?cv \<and> canBeClient ?cv"
    using that unfolding computed_roles(2) sr by simp
  have down2: "effectiveRole ?cv = Null"
    if "storedRole ?cv = Val ''freelancer'' \<and> \<not> canBeFreelancer ?cv \<and> \<not> canBeClient ?cv"
    using that unfolding computed_roles(2) sr by simp
  have down3: "effectiveRole ?cv = Null"
    if "storedRole ?cv = Val ''client'' \<and> \<not> canBeClient ?cv"
    using that unfolding computed_roles(2) sr by simp
  have keep: "effectiveRole ?cv = storedRole ?cv"
    if "\<not> (storedRole ?cv = Val ''freelancer'' \<and> \<not> canBeFreelancer ?cv) \<and>
        \<not> (storedRole ?cv = Val ''client'' \<and> \<not> canBeClient ?cv)"
    using that unfolding computed_roles(2) sr by auto
  have admin: "isClient ?cv \<and> isFreelancer ?cv \<and> isAdmin ?cv"
    if "storedRole ?cv = Val ''admin''"
    using that unfolding computed_roles(3,4,5) sr by simp
  from same stored down1 down2 down3 keep admin show ?thesis
    by blast
qed

theorem C2_effective_role_witness:
  "effectiveRole (computedValues (holding 5000 ''freelancer'')) = Val ''client'' \<and>
   effectiveRole (computedValues (holding 10 ''freelancer'')) = Null \<and>
   effectiveRole (computedValues (holding 10 ''client'')) = Null \<and>
   effectiveRole (computedValues (holding 20000 ''freelancer'')) = Val ''freelancer'' \<and>
   isClient (computedValues (holding 0 ''admin'')) \<and>
   isFreelancer (computedValues (holding 0 ''admin'')) \<and>
   isAdmin (computedValues (holding 0 ''admin'')) \<and>
   effectiveRole (computedValues ((holding 5000 ''freelancer'')\<lparr>isLoading := False\<rparr>)) =
     effectiveRole (computedValues (holding 5000 ''freelancer''))"
proof -
  have st: "storedRole (computedValues (holding b r)) = Val r" for b r
    by (simp add: computed_roles)
  have "effectiveRole (computedValues (holding 5000 ''freelancer'')) = Val ''client''"
    using C2_effective_role [of "holding 5000 ''freelancer''" "holding 5000 ''freelancer''"]
    by (simp add: st computed_flags)
  moreover have "effectiveRole (computedValues (holding 10 ''freelancer'')) = Null"
    using C2_effective_role [of "holding 10 ''freelancer''" "holding 10 ''freelancer''"]
    by (simp add: st computed_flags)
  moreover have "effectiveRole (computedValues (holding 10 ''client'')) = Null"
    using C2_effective_role [of "holding 10 ''client''" "holding 10 ''client''"]
    by (simp add: st computed_flags)
  moreover have "effectiveRole (computedValues (holding 20000 ''freelancer'')) = Val ''freelancer''"
    using C2_effective_role [of "holding 20000 ''freelancer''" "holding 20000 ''freelancer''"]
    by (simp add: st computed_flags)
  moreover have "isClient (computedValues (holding 0 ''admin'')) \<and>
      isFreelancer (computedValues (holding 0 ''admin'')) \<and>
      isAdmin (computedValues (holding 0 ''admin''))"
    using C2_effective_role [of "holding 0 ''admin''" "holding 0 ''admin''"]
    by (simp add: st)
  moreover have "effectiveRole (computedValues ((holding 5000 ''freelancer'')\<lparr>isLoading := False\<rparr>)) =
      effectiveRole (computedValues (holding 5000 ''freelancer''))"
    using C2_effective_role [of "(holding 5000 ''freelancer'')\<lparr>isLoading := False\<rparr>"
        "holding 5000 ''freelancer''"]
    by simp
  ultimately show ?thesis by blast
qed

text \<open>
  C8. The tiers are nested: \<open>isBoostedFreelancer\<close> implies \<open>canBeFreelancer\<close>, which
  implies \<open>canBeClient\<close>; and \<open>hasMinTokens\<close> is antitone in the required amount.
\<close>

theorem C8_tiers_nested:
  "(isBoostedFreelancer (computedValues s) \<longrightarrow> canBeFreelancer (computedValues s)) \<and>
   (canBeFreelancer (computedValues s) \<longrightarrow> canBeClient (computedValues s)) \<and>
   (hasMinTokens s r \<and> js_le r' r \<longrightarrow> hasMinTokens s r')"
proof (intro conjI impI)
  assume "isBoostedFreelancer (computedValues s)"
  then have "js_ge (tokenBalance (computedValues s)) (Num 50000)" by (simp add: computed_flags)
  moreover have "js_le (Num 10000) (Num 50000)" by simp
  ultimately show "canBeFreelancer (computedValues s)"
    unfolding computed_flags by (rule js_ge_antitone)
next
  assume "canBeFreelancer (computedValues s)"
  then have "js_ge (tokenBalance (computedValues s)) (Num 10000)" by (simp add: computed_flags)
  moreover have "js_le (Num 1000) (Num 10000)" by simp
  ultimately show "canBeClient (computedValues s)"
    unfolding computed_flags by (rule js_ge_antitone)
next
  assume "hasMinTokens s r \<and> js_le r' r"
  then show "hasMinTokens s r'"
    unfolding hasMinTokens_def by (blast intro: js_ge_antitone)
qed

theorem C8_tiers_nested_witness:
  "isBoostedFreelancer (computedValues (holding 60000 ''freelancer'')) \<and>
   canBeFreelancer (computedValues (holding 60000 ''freelancer'')) \<and>
   canBeClient (computedValues (holding 60000 ''freelancer'')) \<and>
   hasMinTokens (holding 60000 ''freelancer'') (Num 60000) \<and> js_le (Num 2500) (Num 60000) \<and>
   hasMinTokens (holding 60000 ''freelancer'') (Num 2500)"
proof -
  have b: "isBoostedFreelancer (computedValues (holding 60000 ''freelancer''))"
    by (simp add: computed_flags)
  have h: "hasMinTokens (holding 60000 ''freelancer'') (Num 60000)"
    by (simp add: hasMinTokens_def computed_flags)
  have l: "js_le (Num 2500) (Num 60000)" by simp
  show ?thesis
    using b h l C8_tiers_nested [of "holding 60000 ''freelancer''" "Num 60000" "Num 2500"]
    by blast
qed

section \<open>\<open>updateProfile\<close> without a hosted-auth user\<close>

text \<open>
  C10. When the hosted-auth user is null, also for a soft login whose profile makes the
  identity authenticated, \<open>updateProfile\<close> returns \<open>data: null\<close> with the error
  \<open>No user logged in\<close>, writes nothing to the database and leaves the state, the profile
  included, as it was.
\<close>

theorem C10_updateProfile_without_user:
  "user s = None \<Longrightarrow>
     fst (updateProfile s updates db) =
       \<lparr>data = None, error = Some (new_Error ''No user logged in'')\<rparr> \<and>
     snd (updateProfile s updates db) = s \<and>
     effects (snd (updateProfile s updates db)) = effects s \<and>
     profile (snd (updateProfile s updates db)) = profile s"
  by (simp add: updateProfile_def)

theorem C10_updateProfile_without_user_witness:
  "user soft_login = None \<and> isAuthenticated (computedValues soft_login) \<and>
   fst (updateProfile soft_login [(''nickname'', Val ''al'')]
          (Resolved \<lparr>data = Some alice, error = None\<rparr>)) =
     \<lparr>data = None, error = Some (new_Error ''No user logged in'')\<rparr> \<and>
   snd (updateProfile soft_login [(''nickname'', Val ''al'')]
          (Resolved \<lparr>data = Some alice, error = None\<rparr>)) = soft_login"
proof -
  have u: "user soft_login = None" by simp
  have a: "isAuthenticated (computedValues soft_login)" by (simp add: computed_roles)
  show ?thesis
    using u a C10_updateProfile_without_user [OF u, of "[(''nickname'', Val ''al'')]"
        "Resolved \<lparr>data = Some alice, error = None\<rparr>"]
    by simp
qed

section \<open>Totality of the balance lookup\<close>

lemma bind_err_simps [simp]:
  "bind_err (Inl e) f = Inl e"
  "bind_err (Inr v) f = f v"
  by (simp_all add: bind_err_def)










section \<open>Retries and timeouts of profile fetches\<close>

declare withRetry_loop.simps [simp del]

text \<open>The three ways one iteration of the loop goes.\<close>

lemma withRetry_loop_return:
  "attempt \<le> retries \<Longrightarrow> snd (fn attempt) = Inr v \<Longrightarrow>
     withRetry_loop fn retries baseDelay sr attempt le now slept =
       \<lparr>outcome = Inr v, invocations = Suc attempt, sleeps = slept,
        settled_at = now + fst (fn attempt)\<rparr>"
  by (subst withRetry_loop.simps) simp

lemma withRetry_loop_throw:
  "attempt \<le> retries \<Longrightarrow> snd (fn attempt) = Inl e \<Longrightarrow>
   \<not> (\<not> isAbortError e \<and> attempt < retries \<and> sr e) \<Longrightarrow>
     withRetry_loop fn retries baseDelay sr attempt le now slept =
       \<lparr>outcome = Inl e, invocations = Suc attempt, sleeps = slept,
        settled_at = now + fst (fn attempt)\<rparr>"
  by (subst withRetry_loop.simps) auto

lemma withRetry_loop_again:
  "attempt \<le> retries \<Longrightarrow> snd (fn attempt) = Inl e \<Longrightarrow>
   \<not> isAbortError e \<and> attempt < retries \<and> sr e \<Longrightarrow>
     withRetry_loop fn retries baseDelay sr attempt le now slept =
       withRetry_loop fn retries baseDelay sr (Suc attempt) (Some e)
         (now + fst (fn attempt) + baseDelay * 2 ^ attempt) (slept @ [baseDelay * 2 ^ attempt])"
  by (subst withRetry_loop.simps) simp

lemma withRetry_loop_invocations:
  "attempt \<le> retries \<Longrightarrow>
     attempt < invocations (withRetry_loop fn retries baseDelay sr attempt le now slept) \<and>
     invocations (withRetry_loop fn retries baseDelay sr attempt le now slept) \<le> Suc retries"
proof (induction fn retries baseDelay sr attempt le now slept rule: withRetry_loop.induct)
  case (1 fn retries baseDelay sr attempt le now slept)
  show ?case
  proof (cases "snd (fn attempt)")
    case (Inr v)
    with "1.prems" show ?thesis by (simp add: withRetry_loop_return)
  next
    case (Inl e)
    show ?thesis
    proof (cases "\<not> isAbortError e \<and> attempt < retries \<and> sr e")
      case True
      with "1.IH" [OF "1.prems" Inl] show ?thesis
        by (simp add: withRetry_loop_again [where fn = fn and sr = sr and e = e, OF "1.prems" Inl True])
    next
      case False
      with "1.prems" show ?thesis by (simp add: withRetry_loop_throw [where fn = fn and sr = sr and e = e, OF "1.prems" Inl False])
    qed
  qed
qed

lemma withRetry_loop_sleeps:
  "attempt \<le> retries \<Longrightarrow>
     sleeps (withRetry_loop fn retries baseDelay sr attempt le now slept) =
       slept @ map (\<lambda>k. baseDelay * 2 ^ k)
                 [attempt ..< invocations (withRetry_loop fn retries baseDelay sr attempt le now slept) - 1]"
proof (induction fn retries baseDelay sr attempt le now slept rule: withRetry_loop.induct)
  case (1 fn retries baseDelay sr attempt le now slept)
  show ?case
  proof (cases "snd (fn attempt)")
    case (Inr v)
    with "1.prems" show ?thesis by (simp add: withRetry_loop_return)
  next
    case (Inl e)
    show ?thesis
    proof (cases "\<not> isAbortError e \<and> attempt < retries \<and> sr e")
      case True
      let ?rec = "withRetry_loop fn retries baseDelay sr (Suc attempt) (Some e)
            (now + fst (fn attempt) + baseDelay * 2 ^ attempt) (slept @ [baseDelay * 2 ^ attempt])"
      from True have le: "Suc attempt \<le> retries" by simp
      from "1.IH" [OF "1.prems" Inl] True le have ih:
        "sleeps ?rec = (slept @ [baseDelay * 2 ^ attempt]) @
           map (\<lambda>k. baseDelay * 2 ^ k) [Suc attempt ..< invocations ?rec - 1]"
        by simp
      from withRetry_loop_invocations [OF le] have "Suc attempt < invocations ?rec" by blast
      then have "[attempt ..< invocations ?rec - 1] = attempt # [Suc attempt ..< invocations ?rec - 1]"
        by (simp add: upt_conv_Cons)
      with ih have "sleeps ?rec = slept @ map (\<lambda>k. baseDelay * 2 ^ k) [attempt ..< invocations ?rec - 1]"
        by simp
      then show ?thesis
        by (simp add: withRetry_loop_again [where fn = fn and sr = sr and e = e, OF "1.prems" Inl True])
    next
      case False
      show ?thesis by (simp add: withRetry_loop_throw [where fn = fn and sr = sr and e = e, OF "1.prems" Inl False])
    qed
  qed
qed

lemma withRetry_loop_retried:
  "attempt \<le> retries \<Longrightarrow> attempt \<le> k \<Longrightarrow>
   Suc k < invocations (withRetry_loop fn retries baseDelay sr attempt le now slept) \<Longrightarrow>
     \<exists>e. snd (fn k) = Inl e \<and> \<not> isAbortError e \<and> sr e"
proof (induction fn retries baseDelay sr attempt le now slept rule: withRetry_loop.induct)
  case (1 fn retries baseDelay sr attempt le now slept)
  show ?case
  proof (cases "snd (fn attempt)")
    case (Inr v)
    with "1.prems" show ?thesis by (simp add: withRetry_loop_return)
  next
    case (Inl e)
    show ?thesis
    proof (cases "\<not> isAbortError e \<and> attempt < retries \<and> sr e")
      case True
      let ?rec = "withRetry_loop fn retries baseDelay sr (Suc attempt) (Some e)
            (now + fst (fn attempt) + baseDelay * 2 ^ attempt) (slept @ [baseDelay * 2 ^ attempt])"
      note eq = withRetry_loop_again [where fn = fn and sr = sr and e = e, OF "1.prems"(1) Inl True]
      show ?thesis
      proof (cases "k = attempt")
        case True
        with Inl \<open>\<not> isAbortError e \<and> attempt < retries \<and> sr e\<close> show ?thesis by simp
      next
        case False
        with "1.prems" have "Suc attempt \<le> k" by simp
        moreover from "1.prems"(3) have "Suc k < invocations ?rec" by (simp add: eq)
        moreover from True have "Suc attempt \<le> retries" by simp
        ultimately show ?thesis
          using "1.IH" [OF "1.prems"(1) Inl] True by simp
      qed
    next
      case False
      from "1.prems" show ?thesis
        by (simp add: withRetry_loop_throw [where fn = fn and sr = sr and e = e, OF "1.prems"(1) Inl False])
    qed
  qed
qed

lemma withRetry_loop_outcome:
  "attempt \<le> retries \<Longrightarrow>
     outcome (withRetry_loop fn retries baseDelay sr attempt le now slept) =
       snd (fn (invocations (withRetry_loop fn retries baseDelay sr attempt le now slept) - 1))"
proof (induction fn retries baseDelay sr attempt le now slept rule: withRetry_loop.induct)
  case (1 fn retries baseDelay sr attempt le now slept)
  show ?case
  proof (cases "snd (fn attempt)")
    case (Inr v)
    with "1.prems" show ?thesis by (simp add: withRetry_loop_return)
  next
    case (Inl e)
    show ?thesis
    proof (cases "\<not> isAbortError e \<and> attempt < retries \<and> sr e")
      case True
      from True have "Suc attempt \<le> retries" by simp
      with "1.IH" [OF "1.prems" Inl] True show ?thesis
        by (simp add: withRetry_loop_again [where fn = fn and sr = sr and e = e, OF "1.prems" Inl True])
    next
      case False
      show ?thesis using Inl by (simp add: withRetry_loop_throw [where fn = fn and sr = sr and e = e, OF "1.prems" Inl False])
    qed
  qed
qed

lemma withRetry_loop_settled_at:
  "attempt \<le> retries \<Longrightarrow>
     settled_at (withRetry_loop fn retries baseDelay sr attempt le now slept) =
       now + (\<Sum>k = attempt ..< invocations (withRetry_loop fn retries baseDelay sr attempt le now slept). fst (fn k))
           + (\<Sum>k = attempt ..< invocations (withRetry_loop fn retries baseDelay sr attempt le now slept) - 1.
                 baseDelay * 2 ^ k)"
proof (induction fn retries baseDelay sr attempt le now slept rule: withRetry_loop.induct)
  case (1 fn retries baseDelay sr attempt le now slept)
  show ?case
  proof (cases "snd (fn attempt)")
    case (Inr v)
    with "1.prems" show ?thesis by (simp add: withRetry_loop_return)
  next
    case (Inl e)
    show ?thesis
    proof (cases "\<not> isAbortError e \<and> attempt < retries \<and> sr e")
      case True
      let ?rec = "withRetry_loop fn retries baseDelay sr (Suc attempt) (Some e)
            (now + fst (fn attempt) + baseDelay * 2 ^ attempt) (slept @ [baseDelay * 2 ^ attempt])"
      note eq = withRetry_loop_again [where fn = fn and sr = sr and e = e, OF "1.prems" Inl True]
      from True have le: "Suc attempt \<le> retries" by simp
      from withRetry_loop_invocations [OF le] have inv: "Suc attempt < invocations ?rec" by blast
      from "1.IH" [OF "1.prems" Inl] True le have ih:
        "settled_at ?rec = now + fst (fn attempt) + baseDelay * 2 ^ attempt
           + (\<Sum>k = Suc attempt ..< invocations ?rec. fst (fn k))
           + (\<Sum>k = Suc attempt ..< invocations ?rec - 1. baseDelay * 2 ^ k)"
        by simp
      from inv have "(\<Sum>k = attempt ..< invocations ?rec. fst (fn k)) =
          fst (fn attempt) + (\<Sum>k = Suc attempt ..< invocations ?rec. fst (fn k))"
        by (simp add: sum.atLeast_Suc_lessThan)
      moreover from inv have "(\<Sum>k = attempt ..< invocations ?rec - 1. baseDelay * 2 ^ k) =
          baseDelay * 2 ^ attempt + (\<Sum>k = Suc attempt ..< invocations ?rec - 1. baseDelay * 2 ^ k)"
        by (simp add: sum.atLeast_Suc_lessThan)
      ultimately show ?thesis
        unfolding eq ih by simp
    next
      case False
      show ?thesis by (simp add: withRetry_loop_throw [where fn = fn and sr = sr and e = e, OF "1.prems" Inl False])
    qed
  qed
qed

lemma fetchPromise_facts:
  "1 \<le> invocations (fetchPromise db options) \<and> invocations (fetchPromise db options) \<le> 3"
  "sleeps (fetchPromise db options) =
     map (\<lambda>k. 1000 * 2 ^ k) [0 ..< invocations (fetchPromise db options) - 1]"
  "Suc k < invocations (fetchPromise db options) \<Longrightarrow>
     \<exists>e. fetchFn (settles (db k)) = Inl e \<and> \<not> isAbortError e \<and> shouldRetry_profile e"
  "outcome (fetchPromise db options) =
     fetchFn (settles (db (invocations (fetchPromise db options) - 1)))"
  "settled_at (fetchPromise db options) =
     (\<Sum>k = 0 ..< invocations (fetchPromise db options). duration (db k)) +
     (\<Sum>k = 0 ..< invocations (fetchPromise db options) - 1. 1000 * 2 ^ k)"
proof -
  let ?fn = "\<lambda>k. (duration (db k), fetchFn (settles (db k)))"
  let ?loop = "withRetry_loop ?fn 2 1000 shouldRetry_profile 0 None 0 []"
  have le: "(0::nat) \<le> 2" by simp
  have "fetchPromise db options = ?loop \<or>
      fetchPromise db options =
        \<lparr>outcome = fetchFn (settles (db 0)), invocations = 1, sleeps = [],
         settled_at = duration (db 0)\<rparr>"
    by (simp add: fetchPromise_def withRetry_def Let_def split: option.split)
  then consider (retry) "fetchPromise db options = ?loop"
    | (once) "fetchPromise db options =
        \<lparr>outcome = fetchFn (settles (db 0)), invocations = 1, sleeps = [],
         settled_at = duration (db 0)\<rparr>"
    by blast
  note shape = this
  show "1 \<le> invocations (fetchPromise db options) \<and> invocations (fetchPromise db options) \<le> 3"
    using shape withRetry_loop_invocations [OF le, of ?fn 1000 shouldRetry_profile None 0 "[]"]
    by cases auto
  show "sleeps (fetchPromise db options) =
     map (\<lambda>k. 1000 * 2 ^ k) [0 ..< invocations (fetchPromise db options) - 1]"
    using shape withRetry_loop_sleeps [OF le, of ?fn 1000 shouldRetry_profile None 0 "[]"]
    by cases auto
  show "\<exists>e. fetchFn (settles (db k)) = Inl e \<and> \<not> isAbortError e \<and> shouldRetry_profile e"
    if "Suc k < invocations (fetchPromise db options)"
    using shape that
      withRetry_loop_retried [OF le, of k ?fn 1000 shouldRetry_profile None 0 "[]"]
    by cases auto
  show "outcome (fetchPromise db options) =
     fetchFn (settles (db (invocations (fetchPromise db options) - 1)))"
    using shape withRetry_loop_outcome [OF le, of ?fn 1000 shouldRetry_profile None 0 "[]"]
    by cases auto
  show "settled_at (fetchPromise db options) =
     (\<Sum>k = 0 ..< invocations (fetchPromise db options). duration (db k)) +
     (\<Sum>k = 0 ..< invocations (fetchPromise db options) - 1. 1000 * 2 ^ k)"
    using shape withRetry_loop_settled_at [OF le, of ?fn 1000 shouldRetry_profile None 0 "[]"]
    by cases auto
qed

lemma timeout_error_not_abort: "\<not> isAbortError (new_Error ''Profile fetch timeout'')"
  by (simp add: isAbortError_def new_Error_def message_includes_def)

lemma fetchProfile_race:
  "fetchProfile db uid options =
     (if settled_at (fetchPromise db options) < (case opt_timeout options of None \<Rightarrow> 5000 | Some t \<Rightarrow> t)
      then (case outcome (fetchPromise db options) of
              Inl e \<Rightarrow> if isAbortError e then Inr None else Inl e
            | Inr found \<Rightarrow> Inr found)
      else Inl (new_Error ''Profile fetch timeout''))"
  using timeout_error_not_abort
  by (simp add: fetchProfile_def race_timeout_def ignore_abort_def Let_def)

text \<open>
  C4. A call of \<open>fetchProfile\<close> runs the query at least once and at most three times.
  Before the run of number \<open>k + 1\<close> it sleeps \<open>1000 * 2 ^ k\<close> ms, and it makes that run only
  when run \<open>k\<close> threw an error that is no abort error and whose message contains
  \<open>fetch\<close>, \<open>network\<close> or \<open>Failed to fetch\<close>. An abort error is therefore never retried,
  and it becomes the result \<open>null\<close>. The whole races a timer of 5000 ms unless another
  timeout is given: when the runs and sleeps together take that long or longer, the call
  rejects with \<open>Profile fetch timeout\<close>. A missing row (code \<open>PGRST116\<close>) is \<open>null\<close>, not an
  error.
\<close>

theorem C4_fetchProfile_retries_and_timeout:
  "1 \<le> invocations (fetchPromise db options) \<and>
   invocations (fetchPromise db options) \<le> 3 \<and>
   sleeps (fetchPromise db options) =
     map (\<lambda>k. 1000 * 2 ^ k) [0 ..< invocations (fetchPromise db options) - 1] \<and>
   (\<forall>k. Suc k < invocations (fetchPromise db options) \<longrightarrow>
      (\<exists>e. fetchFn (settles (db k)) = Inl e \<and> \<not> isAbortError e \<and>
           (message_includes e ''fetch'' \<or> message_includes e ''network'' \<or>
            message_includes e ''Failed to fetch''))) \<and>
   outcome (fetchPromise db options) =
     fetchFn (settles (db (invocations (fetchPromise db options) - 1))) \<and>
   settled_at (fetchPromise db options) =
     (\<Sum>k = 0 ..< invocations (fetchPromise db options). duration (db k)) +
     sum_list (sleeps (fetchPromise db options)) \<and>
   fetchProfile db uid options =
     (if settled_at (fetchPromise db options) < (case opt_timeout options of None \<Rightarrow> 5000 | Some t \<Rightarrow> t)
      then (case outcome (fetchPromise db options) of
              Inl e \<Rightarrow> if isAbortError e then Inr None else Inl e
            | Inr found \<Rightarrow> Inr found)
      else Inl (new_Error ''Profile fetch timeout'')) \<and>
   (err_code e = Some (CodeStr ''PGRST116'') \<longrightarrow>
      fetchFn (Resolved \<lparr>data = d, error = Some e\<rparr>) = Inr None)"
proof -
  have sum: "sum_list (sleeps (fetchPromise db options)) =
      (\<Sum>k = 0 ..< invocations (fetchPromise db options) - 1. 1000 * 2 ^ k)"
    by (subst fetchPromise_facts(2)) (simp add: interv_sum_list_conv_sum_set_nat)
  have retried: "\<forall>k. Suc k < invocations (fetchPromise db options) \<longrightarrow>
      (\<exists>e. fetchFn (settles (db k)) = Inl e \<and> \<not> isAbortError e \<and>
           (message_includes e ''fetch'' \<or> message_includes e ''network'' \<or>
            message_includes e ''Failed to fetch''))"
    using fetchPromise_facts(3) [of _ db options] by (simp add: shouldRetry_profile_def)
  have missing: "err_code e = Some (CodeStr ''PGRST116'') \<longrightarrow>
      fetchFn (Resolved \<lparr>data = d, error = Some e\<rparr>) = Inr None"
    by (simp add: fetchFn_def)
  from fetchPromise_facts(1,2,4) [of db options] fetchPromise_facts(5) [of db options]
    sum retried fetchProfile_race [of db uid options] missing
  show ?thesis by presburger
qed

lemma flaky_run:
  "fetchPromise flaky_db default_options =
     \<lparr>outcome = Inr (Some alice), invocations = 3, sleeps = [1000, 2000], settled_at = 3350\<rparr>"
  by (simp add: fetchPromise_def withRetry_def default_options_def flaky_db_def fetchFn_def
      withRetry_loop.simps network_error_def found_alice_def isAbortError_def message_includes_def
      shouldRetry_profile_def)

lemma default_timeout: "opt_timeout default_options = None"
  by (simp add: default_options_def)

lemma aborted_run:
  "fetchPromise aborted_db default_options =
     \<lparr>outcome = Inl abort_error, invocations = 1, sleeps = [], settled_at = 300\<rparr>"
  by (simp add: fetchPromise_def withRetry_def default_options_def aborted_db_def fetchFn_def
      withRetry_loop.simps abort_error_def isAbortError_def message_includes_def)

lemma empty_run:
  "fetchPromise empty_db default_options =
     \<lparr>outcome = Inr None, invocations = 1, sleeps = [], settled_at = 80\<rparr>"
  by (simp add: fetchPromise_def withRetry_def default_options_def empty_db_def fetchFn_def
      withRetry_loop.simps no_rows_def)

lemma slow_run:
  "fetchPromise slow_db options =
     \<lparr>outcome = Inr (Some alice), invocations = 1, sleeps = [], settled_at = 20000\<rparr>"
  by (simp add: fetchPromise_def withRetry_def slow_db_def fetchFn_def
      withRetry_loop.simps found_alice_def split: option.split)

theorem C4_fetchProfile_witness:
  "invocations (fetchPromise flaky_db default_options) = 3 \<and>
   sleeps (fetchPromise flaky_db default_options) = [1000, 2000] \<and>
   (\<exists>e. fetchFn (settles (flaky_db 1)) = Inl e \<and> \<not> isAbortError e \<and>
        (message_includes e ''fetch'' \<or> message_includes e ''network'' \<or>
         message_includes e ''Failed to fetch'')) \<and>
   fetchProfile flaky_db ''u-alice'' default_options = Inr (Some alice) \<and>
   invocations (fetchPromise aborted_db default_options) = 1 \<and>
   fetchProfile aborted_db ''u-alice'' default_options = Inr None \<and>
   fetchProfile empty_db ''u-alice'' default_options = Inr None \<and>
   fetchProfile slow_db ''u-alice'' default_options = Inl (new_Error ''Profile fetch timeout'')"
proof -
  note flaky = C4_fetchProfile_retries_and_timeout
    [where db = flaky_db and options = default_options and uid = "''u-alice''" and e = no_rows]
  have three: "Suc 1 < invocations (fetchPromise flaky_db default_options)"
    by (simp add: flaky_run)
  from flaky three have retried:
    "\<exists>e. fetchFn (settles (flaky_db 1)) = Inl e \<and> \<not> isAbortError e \<and>
        (message_includes e ''fetch'' \<or> message_includes e ''network'' \<or>
         message_includes e ''Failed to fetch'')"
    by blast
  from flaky have a: "invocations (fetchPromise flaky_db default_options) = 3 \<and>
      sleeps (fetchPromise flaky_db default_options) = [1000, 2000] \<and>
      fetchProfile flaky_db ''u-alice'' default_options = Inr (Some alice)"
    by (simp add: flaky_run default_timeout)
  have abort: "isAbortError abort_error"
    by (simp add: abort_error_def isAbortError_def message_includes_def)
  from C4_fetchProfile_retries_and_timeout
    [where db = aborted_db and options = default_options and uid = "''u-alice''" and e = no_rows]
  have b: "invocations (fetchPromise aborted_db default_options) = 1 \<and>
      fetchProfile aborted_db ''u-alice'' default_options = Inr None"
    by (simp add: aborted_run default_timeout abort)
  have code: "err_code no_rows = Some (CodeStr ''PGRST116'')"
    by (simp add: no_rows_def)
  from C4_fetchProfile_retries_and_timeout
    [where db = empty_db and options = default_options and uid = "''u-alice''" and e = no_rows
       and d = None] code
  have c: "fetchProfile empty_db ''u-alice'' default_options = Inr None"
    by (simp add: empty_run default_timeout)
  from C4_fetchProfile_retries_and_timeout
    [where db = slow_db and options = default_options and uid = "''u-alice''" and e = no_rows]
  have d: "fetchProfile slow_db ''u-alice'' default_options = Inl (new_Error ''Profile fetch timeout'')"
    by (simp add: slow_run default_timeout)
  from a retried b c d show ?thesis by blast
qed

section \<open>Soft login\<close>

lemma fetchProfileByWallet_found:
  "settles q = Resolved \<lparr>data = Some p, error = None\<rparr> \<Longrightarrow> duration q < 5000 \<Longrightarrow>
     fetchProfileByWallet q a None = Inr (Some p)"
  by (simp add: fetchProfileByWallet_def race_timeout_def ignore_abort_def fetchFn_def)

lemma fetchProfileByWallet_missing:
  "settles q = Resolved \<lparr>data = d, error = Some e\<rparr> \<Longrightarrow> err_code e = Some (CodeStr ''PGRST116'') \<Longrightarrow>
   duration q < 5000 \<Longrightarrow> fetchProfileByWallet q a None = Inr None"
  by (simp add: fetchProfileByWallet_def race_timeout_def ignore_abort_def fetchFn_def)

lemma connectWallet_found:
  assumes "phantom env = Connected a" "fetchProfileByWallet (walletQuery env) a None = Inr (Some p)"
  shows "connectWallet s env =
     (\<lparr>cr_address = Some a, cr_profile = Some p, cr_profileExists = Some True,
       cr_tokenBalance = Some (balanceFetched env), cr_error = None\<rparr>,
      s\<lparr>effects := effects s @ [PhantomConnect], localWalletAddress := Some a,
        liveTokenBalance := balanceFetched env, isWalletConnecting := False\<rparr>)"
  using assms by (simp add: connectWallet_def Let_def)

lemma connectWallet_missing:
  assumes "phantom env = Connected a" "fetchProfileByWallet (walletQuery env) a None = Inr None"
    "user s = None"
  shows "connectWallet s env =
     (\<lparr>cr_address = Some a, cr_profile = None, cr_profileExists = Some False,
       cr_tokenBalance = Some (balanceFetched env), cr_error = None\<rparr>,
      s\<lparr>effects := effects s @ [PhantomConnect], localWalletAddress := Some a,
        liveTokenBalance := balanceFetched env, isWalletConnecting := False\<rparr>)"
  using assms by (simp add: connectWallet_def Let_def)

lemma signInWithWallet_found:
  assumes "phantom env = Connected a" "a \<noteq> []"
    "fetchProfileByWallet (walletQuery env) a None = Inr (Some p)"
  shows "signInWithWallet s env =
     (\<lparr>data = Some \<lparr>sd_profile = Some p, sd_address = a, isNewUser = False\<rparr>, error = None\<rparr>,
      s\<lparr>authError := None, effects := effects s @ [PhantomConnect], localWalletAddress := Some a,
        liveTokenBalance := balanceFetched env, profile := Some p, isWalletConnecting := False\<rparr>)"
  using assms
  by (simp add: signInWithWallet_def Let_def connectWallet_found [OF assms(1,3)] str_truthy_def)

lemma signInWithWallet_missing:
  assumes "phantom env = Connected a" "a \<noteq> []"
    "fetchProfileByWallet (walletQuery env) a None = Inr None" "user s = None"
  shows "signInWithWallet s env =
     (\<lparr>data = Some \<lparr>sd_profile = None, sd_address = a, isNewUser = True\<rparr>, error = None\<rparr>,
      s\<lparr>authError := None, effects := effects s @ [PhantomConnect], localWalletAddress := Some a,
        liveTokenBalance := balanceFetched env, isWalletConnecting := False\<rparr>)"
  using assms
  by (simp add: signInWithWallet_def Let_def connectWallet_missing [OF assms(1,3)] str_truthy_def)

text \<open>
  C3 (as stated, refuted). Alice is signed in through the hosted-auth client and connects
  wallet B, which matches no profile row: \<open>signInWithWallet\<close> returns \<open>isNewUser: true\<close>
  with a null profile, and the identity is authenticated all the same.
\<close>

theorem C3_no_row_still_authenticated_counterexample:
  "fst (signInWithWallet email_login env_wallet_b) =
     \<lparr>data = Some \<lparr>sd_profile = None, sd_address = ''WalletB'', isNewUser = True\<rparr>, error = None\<rparr> \<and>
   isAuthenticated (computedValues (snd (signInWithWallet email_login env_wallet_b)))"
  by (simp add: signInWithWallet_def connectWallet_def updateProfile_def Let_def env_wallet_b_def
      email_login_def initial_state_def fetchProfileByWallet_def race_timeout_def
      ignore_abort_def fetchFn_def no_rows_def str_truthy_def computed_roles)

text \<open>
  C3 (amended). A wallet connects with a non-empty address. When the lookup by wallet
  address finds a profile row (within its timeout), \<open>signInWithWallet\<close> makes that row the
  current profile and returns it with \<open>isNewUser: false\<close>; its only effect on the
  collaborators is the connection to the wallet (no use of the hosted-auth client, no
  signature), the user is as before, so null if it was null, and the identity is
  authenticated. When the lookup finds no row and no hosted-auth user is signed in, it
  returns \<open>isNewUser: true\<close> with a null profile and leaves user and profile as they
  were: the identity is then authenticated only if a profile was set before.
\<close>

theorem C3_soft_login:
  "(phantom env = Connected a \<and> a \<noteq> [] \<and>
    settles (walletQuery env) = Resolved \<lparr>data = Some p, error = None\<rparr> \<and>
    duration (walletQuery env) < 5000 \<longrightarrow>
      fst (signInWithWallet s env) =
        \<lparr>data = Some \<lparr>sd_profile = Some p, sd_address = a, isNewUser = False\<rparr>, error = None\<rparr> \<and>
      profile (snd (signInWithWallet s env)) = Some p \<and>
      user (snd (signInWithWallet s env)) = user s \<and>
      effects (snd (signInWithWallet s env)) = effects s @ [PhantomConnect] \<and>
      isAuthenticated (computedValues (snd (signInWithWallet s env)))) \<and>
   (phantom env = Connected a \<and> a \<noteq> [] \<and>
    settles (walletQuery env) = Resolved \<lparr>data = d, error = Some e\<rparr> \<and>
    err_code e = Some (CodeStr ''PGRST116'') \<and>
    duration (walletQuery env) < 5000 \<and> user s = None \<longrightarrow>
      fst (signInWithWallet s env) =
        \<lparr>data = Some \<lparr>sd_profile = None, sd_address = a, isNewUser = True\<rparr>, error = None\<rparr> \<and>
      profile (snd (signInWithWallet s env)) = profile s \<and>
      user (snd (signInWithWallet s env)) = None \<and>
      effects (snd (signInWithWallet s env)) = effects s @ [PhantomConnect] \<and>
      isAuthenticated (computedValues (snd (signInWithWallet s env))) = (profile s \<noteq> None))"
proof (intro conjI impI)
  assume h: "phantom env = Connected a \<and> a \<noteq> [] \<and>
    settles (walletQuery env) = Resolved \<lparr>data = Some p, error = None\<rparr> \<and>
    duration (walletQuery env) < 5000"
  then have found: "fetchProfileByWallet (walletQuery env) a None = Inr (Some p)"
    by (simp add: fetchProfileByWallet_found)
  note eq = signInWithWallet_found [of env a p s]
  from h found show
    "fst (signInWithWallet s env) =
       \<lparr>data = Some \<lparr>sd_profile = Some p, sd_address = a, isNewUser = False\<rparr>, error = None\<rparr>"
    "profile (snd (signInWithWallet s env)) = Some p"
    "user (snd (signInWithWallet s env)) = user s"
    "effects (snd (signInWithWallet s env)) = effects s @ [PhantomConnect]"
    "isAuthenticated (computedValues (snd (signInWithWallet s env)))"
    by (simp_all add: eq computed_roles)
next
  assume h: "phantom env = Connected a \<and> a \<noteq> [] \<and>
    settles (walletQuery env) = Resolved \<lparr>data = d, error = Some e\<rparr> \<and>
    err_code e = Some (CodeStr ''PGRST116'') \<and>
    duration (walletQuery env) < 5000 \<and> user s = None"
  then have missing: "fetchProfileByWallet (walletQuery env) a None = Inr None"
    by (simp add: fetchProfileByWallet_missing)
  note eq = signInWithWallet_missing [of env a s]
  from h missing show
    "fst (signInWithWallet s env) =
       \<lparr>data = Some \<lparr>sd_profile = None, sd_address = a, isNewUser = True\<rparr>, error = None\<rparr>"
    "profile (snd (signInWithWallet s env)) = profile s"
    "user (snd (signInWithWallet s env)) = None"
    "effects (snd (signInWithWallet s env)) = effects s @ [PhantomConnect]"
    "isAuthenticated (computedValues (snd (signInWithWallet s env))) = (profile s \<noteq> None)"
    by (simp_all add: eq computed_roles)
qed

lemma env_wallet_a_facts:
  "phantom env_wallet_a = Connected ''WalletA''"
  "settles (walletQuery env_wallet_a) = Resolved \<lparr>data = Some alice, error = None\<rparr>"
  "duration (walletQuery env_wallet_a) < 5000"
  by (simp_all add: env_wallet_a_def found_alice_def)

lemma env_wallet_b_facts:
  "phantom env_wallet_b = Connected ''WalletB''"
  "settles (walletQuery env_wallet_b) = Resolved \<lparr>data = None, error = Some no_rows\<rparr>"
  "err_code no_rows = Some (CodeStr ''PGRST116'')"
  "duration (walletQuery env_wallet_b) < 5000"
  by (simp_all add: env_wallet_b_def no_rows_def)

theorem C3_soft_login_witness:
  "fst (signInWithWallet initial_state env_wallet_a) =
     \<lparr>data = Some \<lparr>sd_profile = Some alice, sd_address = ''WalletA'', isNewUser = False\<rparr>,
      error = None\<rparr> \<and>
   profile (snd (signInWithWallet initial_state env_wallet_a)) = Some alice \<and>
   user (snd (signInWithWallet initial_state env_wallet_a)) = None \<and>
   effects (snd (signInWithWallet initial_state env_wallet_a)) = [PhantomConnect] \<and>
   isAuthenticated (computedValues (snd (signInWithWallet initial_state env_wallet_a))) \<and>
   fst (signInWithWallet initial_state env_wallet_b) =
     \<lparr>data = Some \<lparr>sd_profile = None, sd_address = ''WalletB'', isNewUser = True\<rparr>, error = None\<rparr> \<and>
   \<not> isAuthenticated (computedValues (snd (signInWithWallet initial_state env_wallet_b))) \<and>
   isAuthenticated (computedValues (snd (signInWithWallet soft_login env_wallet_b)))"
proof -
  have a: "''WalletA'' \<noteq> []" and b: "''WalletB'' \<noteq> []" by simp_all
  from C3_soft_login [where env = env_wallet_a and a = "''WalletA''" and p = alice
      and s = initial_state] env_wallet_a_facts a
  have one: "fst (signInWithWallet initial_state env_wallet_a) =
     \<lparr>data = Some \<lparr>sd_profile = Some alice, sd_address = ''WalletA'', isNewUser = False\<rparr>,
      error = None\<rparr> \<and>
   profile (snd (signInWithWallet initial_state env_wallet_a)) = Some alice \<and>
   user (snd (signInWithWallet initial_state env_wallet_a)) = None \<and>
   effects (snd (signInWithWallet initial_state env_wallet_a)) = [PhantomConnect] \<and>
   isAuthenticated (computedValues (snd (signInWithWallet initial_state env_wallet_a)))"
    by (simp add: initial_state_fields)
  from C3_soft_login [where env = env_wallet_b and a = "''WalletB''" and d = None and e = no_rows
      and s = initial_state] env_wallet_b_facts b
  have two: "fst (signInWithWallet initial_state env_wallet_b) =
     \<lparr>data = Some \<lparr>sd_profile = None, sd_address = ''WalletB'', isNewUser = True\<rparr>, error = None\<rparr> \<and>
   \<not> isAuthenticated (computedValues (snd (signInWithWallet initial_state env_wallet_b)))"
    by (simp add: initial_state_fields)
  from C3_soft_login [where env = env_wallet_b and a = "''WalletB''" and d = None and e = no_rows
      and s = soft_login] env_wallet_b_facts b
  have three: "isAuthenticated (computedValues (snd (signInWithWallet soft_login env_wallet_b)))"
    by simp
  from one two three show ?thesis by blast
qed

section \<open>Channels and timers\<close>

lemma setTimeout_fields [simp]:
  "fst (setTimeout s tk ms) = next_id s"
  "timers (snd (setTimeout s tk ms)) = timers s @ [\<lparr>timer_id = next_id s, delay_ms = ms, task = tk\<rparr>]"
  "channels (snd (setTimeout s tk ms)) = channels s"
  "profileSubscriptionRef (snd (setTimeout s tk ms)) = profileSubscriptionRef s"
  "backgroundRetryRef (snd (setTimeout s tk ms)) = backgroundRetryRef s"
  "mountedRef (snd (setTimeout s tk ms)) = mountedRef s"
  "profile (snd (setTimeout s tk ms)) = profile s"
  "user (snd (setTimeout s tk ms)) = user s"
  "next_id (snd (setTimeout s tk ms)) = Suc (next_id s)"
  "effects (snd (setTimeout s tk ms)) =
     effects s @ [SetTimeout \<lparr>timer_id = next_id s, delay_ms = ms, task = tk\<rparr>]"
  by (simp_all add: setTimeout_def Let_def)

lemma clearTimeout_fields [simp]:
  "timers (clearTimeout s t) = filter (\<lambda>x. timer_id x \<noteq> t) (timers s)"
  "channels (clearTimeout s t) = channels s"
  "profileSubscriptionRef (clearTimeout s t) = profileSubscriptionRef s"
  "backgroundRetryRef (clearTimeout s t) = backgroundRetryRef s"
  "fallbackTimeoutId (clearTimeout s t) = fallbackTimeoutId s"
  "mountedRef (clearTimeout s t) = mountedRef s"
  "profile (clearTimeout s t) = profile s"
  "user (clearTimeout s t) = user s"
  "next_id (clearTimeout s t) = next_id s"
  "effects (clearTimeout s t) = effects s @ [ClearTimeout t]"
  by (simp_all add: clearTimeout_def)

lemma removeChannel_fields [simp]:
  "channels (removeChannel s ch) = filter (\<lambda>c. chan_id c \<noteq> chan_id ch) (channels s)"
  "timers (removeChannel s ch) = timers s"
  "profileSubscriptionRef (removeChannel s ch) = profileSubscriptionRef s"
  "backgroundRetryRef (removeChannel s ch) = backgroundRetryRef s"
  "mountedRef (removeChannel s ch) = mountedRef s"
  "profile (removeChannel s ch) = profile s"
  "user (removeChannel s ch) = user s"
  "next_id (removeChannel s ch) = next_id s"
  "effects (removeChannel s ch) = effects s @ [RemoveChannel ch]"
  by (simp_all add: removeChannel_def)

lemma subscribeToProfile_fields:
  "channels (subscribeToProfile s uid) =
     (case profileSubscriptionRef s of
        None \<Rightarrow> channels s
      | Some old \<Rightarrow> filter (\<lambda>c. chan_id c \<noteq> chan_id old) (channels s))
     @ [\<lparr>chan_id = next_id s, chan_user = uid\<rparr>]"
  "profileSubscriptionRef (subscribeToProfile s uid) = Some \<lparr>chan_id = next_id s, chan_user = uid\<rparr>"
  "effects (subscribeToProfile s uid) =
     effects s @ (case profileSubscriptionRef s of None \<Rightarrow> [] | Some old \<Rightarrow> [RemoveChannel old])
     @ [ChannelSubscribe \<lparr>chan_id = next_id s, chan_user = uid\<rparr>]"
  "timers (subscribeToProfile s uid) = timers s"
  "backgroundRetryRef (subscribeToProfile s uid) = backgroundRetryRef s"
  "mountedRef (subscribeToProfile s uid) = mountedRef s"
  "profile (subscribeToProfile s uid) = profile s"
  "user (subscribeToProfile s uid) = user s"
  by (simp_all add: subscribeToProfile_def Let_def split: option.split)

lemma clear_background_retry_fields:
  "backgroundRetryRef (clear_background_retry s) = None"
  "timers (clear_background_retry s) =
     (case backgroundRetryRef s of
        None \<Rightarrow> timers s
      | Some t \<Rightarrow> filter (\<lambda>x. timer_id x \<noteq> t) (timers s))"
  "effects (clear_background_retry s) =
     effects s @ (case backgroundRetryRef s of None \<Rightarrow> [] | Some t \<Rightarrow> [ClearTimeout t])"
  "channels (clear_background_retry s) = channels s"
  "profileSubscriptionRef (clear_background_retry s) = profileSubscriptionRef s"
  "mountedRef (clear_background_retry s) = mountedRef s"
  "next_id (clear_background_retry s) = next_id s"
  "profile (clear_background_retry s) = profile s"
  "user (clear_background_retry s) = user s"
  by (simp_all add: clear_background_retry_def split: option.split)

section \<open>Background retry of the profile fetch\<close>

lemma timeout_message: "message_includes (new_Error ''Profile fetch timeout'') ''timeout''"
  by (simp add: message_includes_def new_Error_def)

lemma updateAuthState_settled_timeout:
  assumes "mountedRef s" "message_includes e ''timeout''" "opt_retryInBackground options \<noteq> Some False"
  shows "updateAuthState_settled s u options (Inl e) =
     (snd (setTimeout (s\<lparr>profile := None\<rparr>) (BackgroundRetry u) 3000))
       \<lparr>backgroundRetryRef := Some (next_id s), isProfileLoading := False\<rparr>"
proof -
  from assms(3) have "(case opt_retryInBackground options of None \<Rightarrow> True | Some b \<Rightarrow> b)"
    by (cases "opt_retryInBackground options") auto
  with assms(1,2) show ?thesis
    by (simp add: updateAuthState_settled_def Let_def)
qed

lemma updateAuthState_settled_unmounted:
  "\<not> mountedRef s \<Longrightarrow> updateAuthState_settled s u options r = s"
  by (simp add: updateAuthState_settled_def Let_def split: sum.split)

text \<open>
  C5 (as stated, refuted). The provider is unmounted while the fetch is awaited; the
  fetch then fails with the timeout and background retry is enabled: the profile is not
  set to null and no retry is scheduled.
\<close>

theorem C5_unmounted_counterexample:
  "profile (updateAuthState_settled unmounted_login alice_user plain_options
              (Inl (new_Error ''Profile fetch timeout''))) = Some alice \<and>
   timers (updateAuthState_settled unmounted_login alice_user plain_options
              (Inl (new_Error ''Profile fetch timeout''))) = []"
proof -
  have "\<not> mountedRef unmounted_login"
    by (simp add: unmounted_login_def)
  then show ?thesis
    by (simp add: updateAuthState_settled_unmounted)
      (simp add: unmounted_login_def email_login_def initial_state_def)
qed

text \<open>
  C5 (amended). While the provider is mounted: when the profile fetch of
  \<open>updateAuthState\<close> fails with an error whose message contains \<open>timeout\<close> (as the error of
  the fetch timeout does) and background retry is not switched off, the profile is set
  to null and exactly one timer is added, due in 3000 ms, which the ref then holds. When
  that timer fires it fetches the profile with a timeout of 15000 ms and with retries; if
  that fetch yields a profile, the profile is set and a channel for the user is
  subscribed. The first segment of every run of \<open>updateAuthState\<close> clears the timer the
  ref holds and empties the ref.
\<close>

theorem C5_background_retry:
  "(mountedRef s \<and> message_includes e ''timeout'' \<and> opt_retryInBackground options \<noteq> Some False \<longrightarrow>
      profile (updateAuthState_settled s u options (Inl e)) = None \<and>
      timers (updateAuthState_settled s u options (Inl e)) =
        timers s @ [\<lparr>timer_id = next_id s, delay_ms = 3000, task = BackgroundRetry u\<rparr>] \<and>
      backgroundRetryRef (updateAuthState_settled s u options (Inl e)) = Some (next_id s)) \<and>
   message_includes (new_Error ''Profile fetch timeout'') ''timeout'' \<and>
   (mountedRef s \<longrightarrow>
      backgroundRetry_fire s u =
        Some \<lparr>req_userId = user_id u,
              req_options = \<lparr>opt_timeout = Some 15000, opt_useRetry = Some True\<rparr>\<rparr>) \<and>
   (mountedRef s \<longrightarrow>
      profile (backgroundRetry_settled s u (Inr (Some p))) = Some p \<and>
      profileSubscriptionRef (backgroundRetry_settled s u (Inr (Some p))) =
        Some \<lparr>chan_id = next_id s, chan_user = user_id u\<rparr> \<and>
      \<lparr>chan_id = next_id s, chan_user = user_id u\<rparr>
        \<in> set (channels (backgroundRetry_settled s u (Inr (Some p))))) \<and>
   (backgroundRetryRef s = Some t \<longrightarrow>
      backgroundRetryRef (fst (updateAuthState_begin s sess options)) = None \<and>
      (\<forall>x \<in> set (timers (fst (updateAuthState_begin s sess options))). timer_id x \<noteq> t) \<and>
      effects (fst (updateAuthState_begin s sess options)) = effects s @ [ClearTimeout t])"
proof (intro conjI impI)
  assume h: "mountedRef s \<and> message_includes e ''timeout'' \<and>
    opt_retryInBackground options \<noteq> Some False"
  then have eq: "updateAuthState_settled s u options (Inl e) =
     (snd (setTimeout (s\<lparr>profile := None\<rparr>) (BackgroundRetry u) 3000))
       \<lparr>backgroundRetryRef := Some (next_id s), isProfileLoading := False\<rparr>"
    by (simp add: updateAuthState_settled_timeout)
  show "profile (updateAuthState_settled s u options (Inl e)) = None"
    "timers (updateAuthState_settled s u options (Inl e)) =
        timers s @ [\<lparr>timer_id = next_id s, delay_ms = 3000, task = BackgroundRetry u\<rparr>]"
    "backgroundRetryRef (updateAuthState_settled s u options (Inl e)) = Some (next_id s)"
    by (simp_all add: eq)
next
  show "message_includes (new_Error ''Profile fetch timeout'') ''timeout''"
    by (rule timeout_message)
next
  assume "mountedRef s"
  then show "backgroundRetry_fire s u =
      Some \<lparr>req_userId = user_id u,
            req_options = \<lparr>opt_timeout = Some 15000, opt_useRetry = Some True\<rparr>\<rparr>"
    by (simp add: backgroundRetry_fire_def)
next
  assume m: "mountedRef s"
  then have eq: "backgroundRetry_settled s u (Inr (Some p)) =
      subscribeToProfile (s\<lparr>profile := Some p\<rparr>) (user_id u)"
    by (simp add: backgroundRetry_settled_def)
  show "profile (backgroundRetry_settled s u (Inr (Some p))) = Some p"
    "profileSubscriptionRef (backgroundRetry_settled s u (Inr (Some p))) =
        Some \<lparr>chan_id = next_id s, chan_user = user_id u\<rparr>"
    "\<lparr>chan_id = next_id s, chan_user = user_id u\<rparr>
        \<in> set (channels (backgroundRetry_settled s u (Inr (Some p))))"
    by (simp_all add: eq subscribeToProfile_fields)
next
  assume t: "backgroundRetryRef s = Some t"
  have st: "timers (fst (updateAuthState_begin s sess options)) = timers (clear_background_retry s)"
    "backgroundRetryRef (fst (updateAuthState_begin s sess options)) = None"
    "effects (fst (updateAuthState_begin s sess options)) = effects (clear_background_retry s)"
    by (simp_all add: updateAuthState_begin_def Let_def clear_background_retry_fields
        split: option.split)
  from t show "backgroundRetryRef (fst (updateAuthState_begin s sess options)) = None"
    "\<forall>x \<in> set (timers (fst (updateAuthState_begin s sess options))). timer_id x \<noteq> t"
    "effects (fst (updateAuthState_begin s sess options)) = effects s @ [ClearTimeout t]"
    by (simp_all add: st clear_background_retry_fields)
qed

lemma email_login_fields:
  "mountedRef email_login" "timers email_login = []" "next_id email_login = 1"
  "effects email_login = []" "channels email_login = []" "user email_login = Some alice_user"
  "profile email_login = Some alice" "backgroundRetryRef email_login = None"
  "profileSubscriptionRef email_login = None"
  by (simp_all add: email_login_def initial_state_def)

theorem C5_background_retry_witness:
  "profile (updateAuthState_settled email_login alice_user plain_options
              (Inl (new_Error ''Profile fetch timeout''))) = None \<and>
   timers (updateAuthState_settled email_login alice_user plain_options
              (Inl (new_Error ''Profile fetch timeout''))) =
     [\<lparr>timer_id = 1, delay_ms = 3000, task = BackgroundRetry alice_user\<rparr>] \<and>
   backgroundRetryRef (updateAuthState_settled email_login alice_user plain_options
              (Inl (new_Error ''Profile fetch timeout''))) = Some 1 \<and>
   backgroundRetry_fire email_login alice_user =
     Some \<lparr>req_userId = ''u-alice'',
           req_options = \<lparr>opt_timeout = Some 15000, opt_useRetry = Some True\<rparr>\<rparr> \<and>
   profile (backgroundRetry_settled email_login alice_user (Inr (Some alice))) = Some alice \<and>
   \<lparr>chan_id = 1, chan_user = ''u-alice''\<rparr>
     \<in> set (channels (backgroundRetry_settled email_login alice_user (Inr (Some alice)))) \<and>
   backgroundRetryRef
     (fst (updateAuthState_begin
        (updateAuthState_settled email_login alice_user plain_options
           (Inl (new_Error ''Profile fetch timeout'')))
        None plain_options)) = None \<and>
   effects
     (fst (updateAuthState_begin
        (updateAuthState_settled email_login alice_user plain_options
           (Inl (new_Error ''Profile fetch timeout'')))
        None plain_options)) =
     [SetTimeout \<lparr>timer_id = 1, delay_ms = 3000, task = BackgroundRetry alice_user\<rparr>, ClearTimeout 1]"
proof -
  let ?e = "new_Error ''Profile fetch timeout''"
  let ?s1 = "updateAuthState_settled email_login alice_user plain_options (Inl ?e)"
  have on: "opt_retryInBackground plain_options \<noteq> Some False"
    by (simp add: plain_options_def)
  have uid: "user_id alice_user = ''u-alice''"
    by (simp add: alice_user_def)
  note first = C5_background_retry [where s = email_login and e = ?e and u = alice_user
      and options = plain_options and p = alice]
  from first email_login_fields(1) timeout_message on
  have a: "profile ?s1 = None \<and>
      timers ?s1 = [\<lparr>timer_id = 1, delay_ms = 3000, task = BackgroundRetry alice_user\<rparr>] \<and>
      backgroundRetryRef ?s1 = Some 1"
    by (simp add: email_login_fields)
  from first email_login_fields(1)
  have b: "backgroundRetry_fire email_login alice_user =
      Some \<lparr>req_userId = ''u-alice'',
            req_options = \<lparr>opt_timeout = Some 15000, opt_useRetry = Some True\<rparr>\<rparr> \<and>
    profile (backgroundRetry_settled email_login alice_user (Inr (Some alice))) = Some alice \<and>
    \<lparr>chan_id = 1, chan_user = ''u-alice''\<rparr>
      \<in> set (channels (backgroundRetry_settled email_login alice_user (Inr (Some alice))))"
    by (simp add: email_login_fields uid)
  have eff: "effects ?s1 =
      [SetTimeout \<lparr>timer_id = 1, delay_ms = 3000, task = BackgroundRetry alice_user\<rparr>]"
    using email_login_fields(1) timeout_message on
    by (simp add: updateAuthState_settled_timeout email_login_fields)
  from a have ref: "backgroundRetryRef ?s1 = Some 1" by simp
  from C5_background_retry [where s = ?s1 and t = 1 and sess = None and options = plain_options] ref
  have c: "backgroundRetryRef (fst (updateAuthState_begin ?s1 None plain_options)) = None \<and>
      effects (fst (updateAuthState_begin ?s1 None plain_options)) =
        [SetTimeout \<lparr>timer_id = 1, delay_ms = 3000, task = BackgroundRetry alice_user\<rparr>,
         ClearTimeout 1]"
    by (simp add: eff)
  from a b c show ?thesis by blast
qed

section \<open>At most one profile channel\<close>

lemma chan_inv_cong:
  "channels s' = channels s \<Longrightarrow> profileSubscriptionRef s' = profileSubscriptionRef s \<Longrightarrow>
     chan_inv s' = chan_inv s"
  by (simp add: chan_inv_def)

lemma chan_inv_subscribe: "chan_inv s \<Longrightarrow> chan_inv (subscribeToProfile s uid)"
  by (auto simp: chan_inv_def subscribeToProfile_fields split: option.split)

lemma chan_inv_subscribe_after_update:
  "chan_inv s \<Longrightarrow> chan_inv (subscribeToProfile (s\<lparr>profile := v\<rparr>) uid)"
  by (rule chan_inv_subscribe) (simp add: chan_inv_def)

lemma cleanup_profile_subscription_fields:
  "profileSubscriptionRef (cleanup_profile_subscription s) = None"
  "channels (cleanup_profile_subscription s) =
     (case profileSubscriptionRef s of
        None \<Rightarrow> channels s
      | Some ch \<Rightarrow> filter (\<lambda>c. chan_id c \<noteq> chan_id ch) (channels s))"
  "effects (cleanup_profile_subscription s) =
     effects s @ (case profileSubscriptionRef s of None \<Rightarrow> [] | Some ch \<Rightarrow> [RemoveChannel ch])"
  "user (cleanup_profile_subscription s) = user s"
  "profile (cleanup_profile_subscription s) = profile s"
  "backgroundRetryRef (cleanup_profile_subscription s) = backgroundRetryRef s"
  "timers (cleanup_profile_subscription s) = timers s"
  by (simp_all add: cleanup_profile_subscription_def split: option.split)

lemma chan_inv_cleanup: "chan_inv s \<Longrightarrow> chan_inv (cleanup_profile_subscription s)"
  by (auto simp: chan_inv_def cleanup_profile_subscription_fields split: option.split)

lemma chan_inv_unmount: "chan_inv s \<Longrightarrow> chan_inv (unmount s)"
  by (auto simp: chan_inv_def unmount_def Let_def split: option.split)

lemma chan_inv_mount: "chan_inv s \<Longrightarrow> chan_inv (mount s)"
  by (simp add: chan_inv_def mount_def Let_def)

lemma chan_inv_timer_fires: "chan_inv s \<Longrightarrow> chan_inv (timer_fires s tid)"
  by (simp add: chan_inv_def timer_fires_def Let_def split: option.split timer_task.split)

lemma chan_inv_backgroundRetry_settled: "chan_inv s \<Longrightarrow> chan_inv (backgroundRetry_settled s u r)"
  by (simp add: backgroundRetry_settled_def chan_inv_subscribe_after_update
      split: sum.split option.split)

lemma chan_inv_clear_background_retry: "chan_inv (clear_background_retry s) = chan_inv s"
  by (rule chan_inv_cong) (simp_all add: clear_background_retry_fields)

lemma updateAuthState_begin_chan:
  "channels (fst (updateAuthState_begin s sess options)) = channels s"
  "profileSubscriptionRef (fst (updateAuthState_begin s sess options)) = profileSubscriptionRef s"
  by (simp_all add: updateAuthState_begin_def Let_def clear_background_retry_fields
      split: option.split)

lemma chan_inv_updateAuthState_begin:
  "chan_inv s \<Longrightarrow> chan_inv (fst (updateAuthState_begin s sess options))"
  by (simp add: chan_inv_def updateAuthState_begin_chan)

lemma chan_inv_updateAuthState_settled:
  assumes "chan_inv s"
  shows "chan_inv (updateAuthState_settled s u options r)"
proof -
  have plain: "chan_inv (s\<lparr>profile := v\<rparr>)" for v
    using assms by (simp add: chan_inv_def)
  have sched: "chan_inv ((snd (setTimeout (s\<lparr>profile := None\<rparr>) (BackgroundRetry u) 3000))
      \<lparr>backgroundRetryRef := Some t\<rparr>)" for t
    using assms by (simp add: chan_inv_def)
  have loading: "chan_inv (x\<lparr>isProfileLoading := False\<rparr>) = chan_inv x" for x
    by (simp add: chan_inv_def)
  show ?thesis
    using assms plain sched chan_inv_subscribe_after_update [OF assms]
    by (simp add: updateAuthState_settled_def Let_def loading split: sum.split option.split)
qed

lemma chan_inv_onAuthStateChange_begin:
  assumes "chan_inv s"
  shows "chan_inv (fst (onAuthStateChange_begin s ev sess))"
proof -
  have start: "chan_inv (fst (case updateAuthState_begin s sess options of
                 (s1, None) \<Rightarrow> (s1, None)
               | (s1, Some (u, req)) \<Rightarrow> (s1, Some (u, req, options))))" for options
  proof (cases "updateAuthState_begin s sess options")
    case (Pair s1 pending)
    with chan_inv_updateAuthState_begin [OF assms, of sess options] have "chan_inv s1" by simp
    with Pair show ?thesis by (cases pending) auto
  qed
  have cleared: "chan_inv ((cleanup_profile_subscription s)
      \<lparr>user := None, profile := None, isLoading := False\<rparr>)"
    using chan_inv_cleanup [OF assms] by (simp add: chan_inv_def)
  have plain: "chan_inv (s\<lparr>user := None, profile := None, isLoading := False\<rparr>)"
    "chan_inv (s\<lparr>initCompleteRef := True\<rparr>)" "chan_inv (s\<lparr>isLoading := False\<rparr>)"
    using assms by (simp_all add: chan_inv_def)
  show ?thesis
    unfolding onAuthStateChange_begin_def Let_def
    using assms start cleared plain by simp
qed

lemma chan_inv_onAuthStateChange_end: "chan_inv s \<Longrightarrow> chan_inv (onAuthStateChange_end s ev)"
  by (simp add: chan_inv_def onAuthStateChange_end_def)

lemma chan_inv_signIn_begin: "chan_inv s \<Longrightarrow> chan_inv (signIn_begin s m pw)"
  by (simp add: chan_inv_def signIn_begin_def)

lemma signIn_authed_chan:
  "channels (fst (signIn_authed s a)) = channels s"
  "profileSubscriptionRef (fst (signIn_authed s a)) = profileSubscriptionRef s"
  by (simp_all add: signIn_authed_def Let_def split: awaited.split option.split)

lemma chan_inv_signIn_authed: "chan_inv s \<Longrightarrow> chan_inv (fst (signIn_authed s a))"
  by (simp add: chan_inv_def signIn_authed_chan)

lemma chan_inv_signIn_fetched: "chan_inv s \<Longrightarrow> chan_inv (signIn_fetched s u r)"
proof -
  assume inv: "chan_inv s"
  then have "chan_inv (s\<lparr>profile := None\<rparr>)" by (simp add: chan_inv_def)
  with inv chan_inv_subscribe_after_update [OF inv] show ?thesis
    by (simp add: signIn_fetched_def split: sum.split option.split)
qed

lemma chan_inv_signOut_begin: "chan_inv s \<Longrightarrow> chan_inv (signOut_begin s)"
proof -
  assume "chan_inv s"
  then have "chan_inv (clear_background_retry (cleanup_profile_subscription s))"
    by (simp add: chan_inv_clear_background_retry chan_inv_cleanup)
  then show ?thesis
    by (simp add: signOut_begin_def Let_def chan_inv_def)
qed

lemma chan_inv_signOut_settled: "chan_inv s \<Longrightarrow> chan_inv (snd (signOut_settled s a))"
  by (simp add: chan_inv_def signOut_settled_def split: awaited.split option.split)

lemma updateProfile_chan:
  "channels (snd (updateProfile s updates db)) = channels s"
  "profileSubscriptionRef (snd (updateProfile s updates db)) = profileSubscriptionRef s"
  by (simp_all add: updateProfile_def Let_def split: option.split awaited.split)

lemma connectWallet_chan:
  "channels (snd (connectWallet s env)) = channels s"
  "profileSubscriptionRef (snd (connectWallet s env)) = profileSubscriptionRef s"
  by (simp_all add: connectWallet_def Let_def updateProfile_chan split: phantom.split)

lemma signInWithWallet_chan:
  "channels (snd (signInWithWallet s env)) = channels s"
  "profileSubscriptionRef (snd (signInWithWallet s env)) = profileSubscriptionRef s"
  by (simp_all add: signInWithWallet_def Let_def connectWallet_chan split: option.split)

lemma chan_inv_onProfileChange: "chan_inv s \<Longrightarrow> chan_inv (onProfileChange s v)"
  by (simp add: chan_inv_def onProfileChange_def split: option.split)

lemma chan_inv_apply_setter: "chan_inv s \<Longrightarrow> chan_inv (apply_setter s x)"
  by (cases x) (simp_all add: chan_inv_def)

lemma chan_inv_step: "chan_inv s \<Longrightarrow> chan_inv (step s ev)"
proof (cases ev)
  case (UpdateProfile updates db)
  assume "chan_inv s"
  with UpdateProfile show ?thesis by (simp add: chan_inv_def updateProfile_chan)
next
  case (ConnectWallet env)
  assume "chan_inv s"
  with ConnectWallet show ?thesis by (simp add: chan_inv_def connectWallet_chan)
next
  case (SignInWithWallet env)
  assume "chan_inv s"
  with SignInWithWallet show ?thesis by (simp add: chan_inv_def signInWithWallet_chan)
qed (simp_all add: chan_inv_mount chan_inv_unmount chan_inv_timer_fires
      chan_inv_backgroundRetry_settled chan_inv_updateAuthState_begin
      chan_inv_updateAuthState_settled chan_inv_onAuthStateChange_begin
      chan_inv_onAuthStateChange_end chan_inv_signIn_begin chan_inv_signIn_authed
      chan_inv_signIn_fetched chan_inv_signOut_begin chan_inv_signOut_settled
      chan_inv_onProfileChange chan_inv_apply_setter)

lemma chan_inv_run: "chan_inv s \<Longrightarrow> chan_inv (run s evs)"
  unfolding run_def by (induction evs arbitrary: s) (simp_all add: chan_inv_step)

lemma chan_inv_initial: "chan_inv initial_state"
  by (simp add: chan_inv_def initial_state_def)

lemma reachable_channels:
  "channels (run initial_state evs) = [] \<or>
   (\<exists>c. channels (run initial_state evs) = [c] \<and>
        profileSubscriptionRef (run initial_state evs) = Some c)"
  using chan_inv_run [OF chan_inv_initial, of evs] by (simp add: chan_inv_def)

text \<open>
  C7. In every state the provider can reach, by any interleaving of the segments of its
  operations, at most one profile channel is subscribed, and it is the one the ref holds.
  \<open>subscribeToProfile\<close> removes the channel the ref holds before it subscribes the new
  one, which is then the only one. The \<open>SIGNED_OUT\<close> and \<open>USER_DELETED\<close> events, which
  the listener handles while the provider is mounted, leave no channel and an empty
  ref. \<open>signOut\<close> removes the channel in its first segment, where user and profile are
  still as they were; they are cleared only after the hosted-auth sign-out succeeded.
\<close>

theorem C7_at_most_one_profile_channel:
  "length (channels (run initial_state evs)) \<le> 1 \<and>
   set (channels (run initial_state evs)) \<subseteq> set_option (profileSubscriptionRef (run initial_state evs)) \<and>
   effects (subscribeToProfile s uid) =
     effects s @ (case profileSubscriptionRef s of None \<Rightarrow> [] | Some old \<Rightarrow> [RemoveChannel old])
       @ [ChannelSubscribe \<lparr>chan_id = next_id s, chan_user = uid\<rparr>] \<and>
   channels (subscribeToProfile (run initial_state evs) uid) =
     [\<lparr>chan_id = next_id (run initial_state evs), chan_user = uid\<rparr>] \<and>
   (mountedRef (run initial_state evs) \<and> (ev = ''SIGNED_OUT'' \<or> ev = ''USER_DELETED'') \<longrightarrow>
      channels (fst (onAuthStateChange_begin (run initial_state evs) ev sess)) = [] \<and>
      profileSubscriptionRef (fst (onAuthStateChange_begin (run initial_state evs) ev sess)) = None) \<and>
   channels (signOut_begin (run initial_state evs)) = [] \<and>
   profileSubscriptionRef (signOut_begin s) = None \<and>
   user (signOut_begin s) = user s \<and> profile (signOut_begin s) = profile s \<and>
   user (snd (signOut_settled s (Resolved None))) = None \<and>
   profile (snd (signOut_settled s (Resolved None))) = None \<and>
   snd (signOut_settled s (Resolved (Some e))) = s \<and>
   snd (signOut_settled s (Rejected e)) = s"
proof -
  let ?r = "run initial_state evs"
  note reach = reachable_channels [of evs]
  have one: "length (channels ?r) \<le> 1"
    using reach by auto
  have held: "set (channels ?r) \<subseteq> set_option (profileSubscriptionRef ?r)"
    using reach by auto
  have order: "effects (subscribeToProfile s uid) =
     effects s @ (case profileSubscriptionRef s of None \<Rightarrow> [] | Some old \<Rightarrow> [RemoveChannel old])
       @ [ChannelSubscribe \<lparr>chan_id = next_id s, chan_user = uid\<rparr>]"
    by (rule subscribeToProfile_fields)
  have fresh: "channels (subscribeToProfile ?r uid) = [\<lparr>chan_id = next_id ?r, chan_user = uid\<rparr>]"
    using reach by (auto simp: subscribeToProfile_fields split: option.split)
  have gone: "channels (cleanup_profile_subscription ?r) = []"
    using reach by (auto simp: cleanup_profile_subscription_fields split: option.split)
  have events: "channels (fst (onAuthStateChange_begin ?r ev sess)) = [] \<and>
      profileSubscriptionRef (fst (onAuthStateChange_begin ?r ev sess)) = None"
    if "mountedRef ?r \<and> (ev = ''SIGNED_OUT'' \<or> ev = ''USER_DELETED'')"
  proof -
    from that have "fst (onAuthStateChange_begin ?r ev sess) =
        (cleanup_profile_subscription ?r)\<lparr>user := None, profile := None, isLoading := False\<rparr>"
      by (auto simp: onAuthStateChange_begin_def Let_def)
    with gone show ?thesis
      by (simp add: cleanup_profile_subscription_fields)
  qed
  have out: "channels (signOut_begin ?r) = []"
    using gone by (simp add: signOut_begin_def Let_def clear_background_retry_fields)
  have first: "profileSubscriptionRef (signOut_begin s) = None \<and>
      user (signOut_begin s) = user s \<and> profile (signOut_begin s) = profile s"
    by (simp add: signOut_begin_def Let_def clear_background_retry_fields
        cleanup_profile_subscription_fields)
  have last: "user (snd (signOut_settled s (Resolved None))) = None \<and>
      profile (snd (signOut_settled s (Resolved None))) = None \<and>
      snd (signOut_settled s (Resolved (Some e))) = s \<and>
      snd (signOut_settled s (Rejected e)) = s"
    by (simp add: signOut_settled_def)
  from one held order fresh events out first last show ?thesis
    by blast
qed

lemma sign_in_run:
  "channels (run initial_state sign_in_events) = [\<lparr>chan_id = 2, chan_user = ''u-alice''\<rparr>]"
  "profileSubscriptionRef (run initial_state sign_in_events) = Some \<lparr>chan_id = 2, chan_user = ''u-alice''\<rparr>"
  "mountedRef (run initial_state sign_in_events)"
  "next_id (run initial_state sign_in_events) = 3"
  by (simp_all add: run_def sign_in_events_def initial_state_def signIn_begin_def signIn_authed_def
      Let_def onAuthStateChange_begin_def updateAuthState_begin_def clear_background_retry_def
      session_user_of_def alice_session_def alice_user_def signIn_fetched_def subscribeToProfile_def
      updateAuthState_settled_def plain_options_def onAuthStateChange_end_def removeChannel_def)

theorem C7_at_most_one_profile_channel_witness:
  "channels (run initial_state sign_in_events) = [\<lparr>chan_id = 2, chan_user = ''u-alice''\<rparr>] \<and>
   length (channels (run initial_state sign_in_events)) \<le> 1 \<and>
   channels (subscribeToProfile (run initial_state sign_in_events) ''u-alice'') =
     [\<lparr>chan_id = 3, chan_user = ''u-alice''\<rparr>] \<and>
   mountedRef (run initial_state sign_in_events) \<and>
   channels (fst (onAuthStateChange_begin (run initial_state sign_in_events) ''SIGNED_OUT'' None)) = [] \<and>
   profileSubscriptionRef
     (fst (onAuthStateChange_begin (run initial_state sign_in_events) ''SIGNED_OUT'' None)) = None \<and>
   channels (signOut_begin (run initial_state sign_in_events)) = []"
  using C7_at_most_one_profile_channel [where evs = sign_in_events and uid = "''u-alice''"
      and ev = "''SIGNED_OUT''" and sess = None] sign_in_run
  by simp

section \<open>What outlives the page\<close>


lemma no_new_writes:
  "effects s' = effects s @ new \<Longrightarrow> \<forall>x \<in> set new. \<not> durable_write cfg x \<Longrightarrow>
     filter (durable_write cfg) (effects s') = filter (durable_write cfg) (effects s)"
  by simp




lemma writes_cong:
  "effects s' = effects s \<Longrightarrow>
     filter (durable_write cfg) (effects s') = filter (durable_write cfg) (effects s)"
  by simp










end
